theory Spec2Isabelle
  imports Main "HOL-Library.Word"
begin

unbundle bit_operations_syntax

section \<open>Common vocabulary\<close>

type_synonym byte = "8 word"

text \<open>
  How a call ends.  \<open>Returned\<close> is the normal return; \<open>AssertFailed\<close> is a failed
  \<^verbatim>\<open>assert\<close> (the process aborts); \<open>Threw\<close> is a C++ exception leaving the function;
  \<open>Undefined\<close> marks a step the C++ standard leaves undefined (\<^verbatim>\<open>back()\<close> of an empty vector,
  a null pointer dereference).
\<close>

datatype 'a outcome =
    Returned 'a
  | AssertFailed string
  | Threw string
  | Undefined

text \<open>
  What a call does besides computing its result: the log lines it prints and the calls it
  makes into the CCTP library.  \<open>LogPrintf\<close> always prints; \<open>LogPrint\<close> prints under a
  debug category.  The strings abbreviate the format strings of the source.
\<close>

datatype event =
    LogPrintf string
  | LogPrint string string
  | Call_zendoo_deserialize_field "byte list"
  | Call_zendoo_merkle_root_from_compressed_bytes "byte list" nat

section \<open>sc/sidechaintypes.cpp\<close>

subsection \<open>The header's constants and the library\<close>

text \<open>
  The constants \<^verbatim>\<open>SC_FIELD_SIZE\<close>, ... are defined in a header that is not part of the
  sources at hand, so they are parameters of the model.
\<close>

record cctp_constants =
  SC_FIELD_SIZE :: nat
  SC_VK_SIZE :: nat
  SC_PROOF_SIZE :: nat
  SC_BV_SIZE_IN_BYTES :: nat
  SC_CUSTOM_DATA_MAX_SIZE :: nat

text \<open>The sizes the linked library reports.\<close>

record cctp_reported_sizes =
  zendoo_get_field_size_in_bytes :: nat
  zendoo_get_sc_vk_size_in_bytes :: nat
  zendoo_get_sc_proof_size_in_bytes :: nat
  zendoo_get_sc_bit_vector_size_in_bytes :: nat
  zendoo_get_sc_custom_data_size_in_bytes :: nat

text \<open>
  The library's operations on field elements; \<open>'f\<close> is the library's own \<^verbatim>\<open>field_t\<close>.
  A null pointer result is \<open>None\<close>.  \<open>ByteSize\<close> is \<^verbatim>\<open>CFieldElement::ByteSize()\<close>.
\<close>

record 'f cctp_lib =
  ByteSize :: nat
  zendoo_deserialize_field :: "byte list \<Rightarrow> 'f option"
  zendoo_serialize_field :: "'f \<Rightarrow> byte list"
  zendoo_merkle_root_from_compressed_bytes :: "byte list \<Rightarrow> nat \<Rightarrow> 'f option"

text \<open>
  Modelled from the spec: \<^verbatim>\<open>CFieldElement::BitSize()\<close> is declared in sc/sidechaintypes.h,
  which is missing here.  The spec calls it the field element's bit capacity, and
  \<^verbatim>\<open>FieldElementCertificateFieldConfig::IsValid\<close> uses \<^verbatim>\<open>ByteSize()*8\<close> for the same bound.
\<close>

definition BitSize :: "'f cctp_lib \<Rightarrow> nat" where
  "BitSize L = ByteSize L * 8"

subsection \<open>CZendooCctpLibraryChecker::CheckTypeSizes\<close>

text \<open>
  Five checks in the source's order; each prints a line and then fails an assertion.
  The first one compares the library's value with \<^verbatim>\<open>SC_FIELD_SIZE+1\<close>.
\<close>

definition CheckTypeSizes :: "cctp_constants \<Rightarrow> cctp_reported_sizes \<Rightarrow> event list \<times> unit outcome" where
  "CheckTypeSizes K R =
    (if SC_FIELD_SIZE K + 1 \<noteq> zendoo_get_field_size_in_bytes R then
       ([LogPrintf ''ERROR: unexpected CCTP field element size''],
        AssertFailed ''ERROR: field element size mismatch between rust CCTP lib and c header!'')
     else if SC_VK_SIZE K \<noteq> zendoo_get_sc_vk_size_in_bytes R then
       ([LogPrintf ''ERROR: unexpected CCTP vk size''],
        AssertFailed ''ERROR: vk size mismatch between rust CCTP lib and c header!'')
     else if SC_PROOF_SIZE K \<noteq> zendoo_get_sc_proof_size_in_bytes R then
       ([LogPrintf ''ERROR: unexpected CCTP proof size''],
        AssertFailed ''ERROR: proof size mismatch between rust CCTP lib and c header!'')
     else if SC_BV_SIZE_IN_BYTES K \<noteq> zendoo_get_sc_bit_vector_size_in_bytes R then
       ([LogPrintf ''ERROR: unexpected CCTP bit vector size''],
        AssertFailed ''ERROR: bit vector size mismatch between rust CCTP lib and c header!'')
     else if SC_CUSTOM_DATA_MAX_SIZE K \<noteq> zendoo_get_sc_custom_data_size_in_bytes R then
       ([LogPrintf ''ERROR: unexpected CCTP custom data size''],
        AssertFailed ''ERROR: custom data size mismatch between rust CCTP lib and c header!'')
     else ([], Returned ()))"

definition aborts :: "event list \<times> 'a outcome \<Rightarrow> bool" where
  "aborts r = (case snd r of AssertFailed m \<Rightarrow> True | _ \<Rightarrow> False)"

definition returns_normally :: "event list \<times> 'a outcome \<Rightarrow> bool" where
  "returns_normally r = (case snd r of Returned v \<Rightarrow> True | _ \<Rightarrow> False)"

text \<open>A header and a library that agree on all five sizes.\<close>

definition agreeing_constants :: cctp_constants where
  "agreeing_constants = \<lparr>SC_FIELD_SIZE = 96, SC_VK_SIZE = 1544, SC_PROOF_SIZE = 771,
     SC_BV_SIZE_IN_BYTES = 1000192, SC_CUSTOM_DATA_MAX_SIZE = 1024\<rparr>"

definition agreeing_sizes :: cctp_reported_sizes where
  "agreeing_sizes = \<lparr>zendoo_get_field_size_in_bytes = 96, zendoo_get_sc_vk_size_in_bytes = 1544,
     zendoo_get_sc_proof_size_in_bytes = 771, zendoo_get_sc_bit_vector_size_in_bytes = 1000192,
     zendoo_get_sc_custom_data_size_in_bytes = 1024\<rparr>"

subsection \<open>CFieldElement\<close>

text \<open>
  A \<^verbatim>\<open>CFieldElement\<close> is its \<^verbatim>\<open>byteVector\<close>; the default-constructed one is empty, and
  \<^verbatim>\<open>IsNull()\<close> tests for that.
\<close>

type_synonym CFieldElement = "byte list"

definition CFieldElement_Null :: CFieldElement where
  "CFieldElement_Null = []"

definition IsNull :: "CFieldElement \<Rightarrow> bool" where
  "IsNull fe = (fe = [])"

text \<open>
  \<^verbatim>\<open>CFieldElement::GetFieldElement()\<close>: an empty byte vector gives the null pointer without
  asking the library; otherwise the library deserializes the buffer.  The events record
  whether the library was called.
\<close>

definition CFieldElement_GetFieldElement :: "'f cctp_lib \<Rightarrow> CFieldElement \<Rightarrow> event list \<times> 'f option" where
  "CFieldElement_GetFieldElement L fe =
    (if fe = [] then ([], None)
     else ([Call_zendoo_deserialize_field fe], zendoo_deserialize_field L fe))"

definition CFieldElement_IsValid :: "'f cctp_lib \<Rightarrow> CFieldElement \<Rightarrow> event list \<times> bool" where
  "CFieldElement_IsValid L fe =
    (case CFieldElement_GetFieldElement L fe of
       (ev, None) \<Rightarrow> (ev, False)
     | (ev, Some p) \<Rightarrow> (ev, True))"

text \<open>
  \<^verbatim>\<open>CFieldElement(const wrappedFieldPtr&)\<close> for a non-null pointer: the byte vector is
  resized to \<open>ByteSize\<close> zero bytes and the library serializes the element into it.
\<close>

definition CFieldElement_of_field :: "'f cctp_lib \<Rightarrow> 'f \<Rightarrow> CFieldElement" where
  "CFieldElement_of_field L p =
     take (ByteSize L) (zendoo_serialize_field L p @ replicate (ByteSize L) 0)"

subsection \<open>Custom field configurations\<close>

text \<open>The \<^verbatim>\<open>int32_t\<close> members are integers; the conversions the C++ comparisons apply
  to them are written out where they are applied.\<close>

record FieldElementCertificateFieldConfig =
  nBits :: int

definition getBitSize :: "FieldElementCertificateFieldConfig \<Rightarrow> int" where
  "getBitSize cfg = nBits cfg"

definition FieldElementCertificateFieldConfig_IsValid ::
  "'f cctp_lib \<Rightarrow> FieldElementCertificateFieldConfig \<Rightarrow> bool" where
  "FieldElementCertificateFieldConfig_IsValid L cfg =
    (if nBits cfg > 0 \<and> nBits cfg \<le> int (ByteSize L * 8) then True else False)"

record BitVectorCertificateFieldConfig =
  bitVectorSizeBits :: int
  maxCompressedSizeBytes :: int

definition getMaxCompressedSizeBytes :: "BitVectorCertificateFieldConfig \<Rightarrow> int" where
  "getMaxCompressedSizeBytes cfg = maxCompressedSizeBytes cfg"

text \<open>
  \<^verbatim>\<open>MAX_BIT_VECTOR_SIZE_BITS\<close> and \<^verbatim>\<open>MAX_COMPRESSED_SIZE_BYTES\<close> are constants of the missing
  header, hence parameters.
\<close>

definition BitVectorCertificateFieldConfig_IsValid ::
  "int \<Rightarrow> int \<Rightarrow> BitVectorCertificateFieldConfig \<Rightarrow> bool" where
  "BitVectorCertificateFieldConfig_IsValid MAX_BIT_VECTOR_SIZE_BITS MAX_COMPRESSED_SIZE_BYTES cfg =
    (let isBitVectorSizeValid =
           (bitVectorSizeBits cfg > 0 \<and> bitVectorSizeBits cfg \<le> MAX_BIT_VECTOR_SIZE_BITS)
     in if \<not> isBitVectorSizeValid then False
        else if bitVectorSizeBits cfg mod 254 \<noteq> 0 \<or> bitVectorSizeBits cfg mod 8 \<noteq> 0 then False
        else let isMaxCompressedSizeValid =
                   (maxCompressedSizeBytes cfg > 0
                    \<and> maxCompressedSizeBytes cfg \<le> MAX_COMPRESSED_SIZE_BYTES)
             in if \<not> isMaxCompressedSizeValid then False else True)"

text \<open>
  The conversion of a signed 32-bit value to \<^verbatim>\<open>size_t\<close> (64 bits), which C++ applies
  when a \<^verbatim>\<open>size()\<close> is compared with an \<^verbatim>\<open>int32_t\<close>.
\<close>

definition to_size_t :: "int \<Rightarrow> nat" where
  "to_size_t i = nat (i mod 2 ^ 64)"

subsection \<open>The two helpers of util\<close>

definition CHAR_BIT :: int where
  "CHAR_BIT = 8"

text \<open>
  Modelled from the spec: \<^verbatim>\<open>getBytesFromBits\<close> is defined outside the sources at hand.
  Its result is the spec's \<open>bytesNeeded = ceil(bitSize / 8)\<close>.  Its second, by-reference
  result is what the caller names \<^verbatim>\<open>rem\<close>, tests with \<^verbatim>\<open>if (rem)\<close> and subtracts from
  \<^verbatim>\<open>CHAR_BIT\<close> to get the number of zero bits it requires; the spec gives that number as
  \<open>bytesNeeded * 8 - bitSize\<close> and says that no bit is required when \<open>bitSize\<close> is a
  multiple of 8.  Both hold exactly when the second result is the remainder of \<open>bitSize\<close>
  by 8, which is the value taken here.
\<close>

definition getBytesFromBits :: "int \<Rightarrow> int \<times> int" where
  "getBytesFromBits nbits = ((nbits + 7) div 8, nbits mod 8)"

text \<open>
  Modelled from the spec: \<^verbatim>\<open>getTrailingZeroBitsInByte\<close> is defined outside the sources at
  hand.  The spec says it counts the trailing (low-order) zero bits of the byte; for the
  zero byte that is all \<^verbatim>\<open>CHAR_BIT\<close> of them.
\<close>

definition getTrailingZeroBitsInByte :: "byte \<Rightarrow> int" where
  "getTrailingZeroBitsInByte inputByte =
     int (length (takeWhile (\<lambda>i. \<not> bit inputByte i) [0..<8]))"

subsection \<open>Custom certificate fields\<close>

datatype VALIDATION_STATE = NOT_INITIALIZED | INVALID | VALID

text \<open>
  The members of a field object: the raw data, the validation state and the cached field
  element of the base class, and the owned copy of the configuration last used
  (\<^verbatim>\<open>pReferenceCfg\<close>, \<open>None\<close> for the null pointer).
\<close>

record 'c CustomCertificateField =
  vRawData :: "byte list"
  state :: VALIDATION_STATE
  fieldElement :: CFieldElement
  pReferenceCfg :: "'c option"

text \<open>
  The constructor from raw bytes.  Modelled from the spec: the base class constructor is
  in the missing header; the spec's data model starts a field in the state NotInitialized
  with no cached element.
\<close>

definition new_CustomCertificateField :: "byte list \<Rightarrow> 'c CustomCertificateField" where
  "new_CustomCertificateField rawBytes =
     \<lparr>vRawData = rawBytes, state = NOT_INITIALIZED, fieldElement = CFieldElement_Null,
      pReferenceCfg = None\<rparr>"

text \<open>
  \<^verbatim>\<open>FieldElementCertificateField::GetFieldElement\<close>, from the line
  \<^verbatim>\<open>state = VALIDATION_STATE::INVALID\<close> to the end: the validation proper.  The object it
  is given already has the old reference configuration deleted.
\<close>

definition FieldElementCertificateField_validate ::
  "'f cctp_lib \<Rightarrow> FieldElementCertificateFieldConfig \<Rightarrow>
   FieldElementCertificateFieldConfig CustomCertificateField \<Rightarrow>
   event list \<times> (CFieldElement \<times> FieldElementCertificateFieldConfig CustomCertificateField) outcome" where
  "FieldElementCertificateField_validate L cfg this0 =
    (let this = this0\<lparr>state := INVALID, fieldElement := CFieldElement_Null,
                      pReferenceCfg := Some cfg\<rparr>
     in if \<not> getBitSize cfg \<le> int (BitSize L) then
          ([], AssertFailed ''cfg.getBitSize() <= CFieldElement::BitSize()'')
        else
          (case getBytesFromBits (getBitSize cfg) of (bytes, rem) \<Rightarrow>
             if int (length (vRawData this)) \<noteq> bytes then
               ([LogPrint ''sc'' ''ERROR: wrong size''], Returned (fieldElement this, this))
             else if rem \<noteq> 0 \<and> vRawData this = [] then ([], Undefined)
             else if rem \<noteq> 0
                     \<and> getTrailingZeroBitsInByte (last (vRawData this)) < CHAR_BIT - rem then
               ([LogPrint ''sc'' ''ERROR: wrong number of null bits in last byte''],
                Returned (fieldElement this, this))
             else if ByteSize L < length (vRawData this) then ([], Threw ''std::length_error'')
             else
               (let extendedRawData =
                      replicate (ByteSize L - length (vRawData this)) 0 @ vRawData this
                in if length extendedRawData \<noteq> ByteSize L then
                     ([], AssertFailed ''byteArrayIn.size() == this->ByteSize()'')
                   else
                     (case CFieldElement_IsValid L extendedRawData of
                        (ev, True) \<Rightarrow>
                          (ev, Returned (extendedRawData,
                                 this\<lparr>fieldElement := extendedRawData, state := VALID\<rparr>))
                      | (ev, False) \<Rightarrow>
                          (ev, Returned (CFieldElement_Null,
                                 this\<lparr>fieldElement := CFieldElement_Null\<rparr>))))))"

text \<open>
  \<^verbatim>\<open>FieldElementCertificateField::GetFieldElement\<close>.  The result is the field element the
  returned reference points to, together with the object after the call (the members are
  \<^verbatim>\<open>mutable\<close>).  The size comparison \<^verbatim>\<open>vRawData.size() != bytes\<close> is taken on the
  mathematical values: a vector's size is below \<open>2^63\<close>, so a negative \<^verbatim>\<open>bytes\<close>, converted
  to \<^verbatim>\<open>size_t\<close>, differs from it as the negative number does.
\<close>

definition FieldElementCertificateField_GetFieldElement ::
  "'f cctp_lib \<Rightarrow> FieldElementCertificateFieldConfig \<Rightarrow>
   FieldElementCertificateFieldConfig CustomCertificateField \<Rightarrow>
   event list \<times> (CFieldElement \<times> FieldElementCertificateFieldConfig CustomCertificateField) outcome" where
  "FieldElementCertificateField_GetFieldElement L cfg this =
    (if state this \<noteq> NOT_INITIALIZED then
       (case pReferenceCfg this of
          None \<Rightarrow> ([], AssertFailed ''pReferenceCfg != nullptr'')
        | Some ref \<Rightarrow>
            if ref = cfg then ([], Returned (fieldElement this, this))
            else FieldElementCertificateField_validate L cfg (this\<lparr>pReferenceCfg := None\<rparr>))
     else FieldElementCertificateField_validate L cfg this)"

text \<open>\<^verbatim>\<open>FieldElementCertificateField::IsValid\<close>.\<close>

definition FieldElementCertificateField_IsValid ::
  "'f cctp_lib \<Rightarrow> FieldElementCertificateFieldConfig \<Rightarrow>
   FieldElementCertificateFieldConfig CustomCertificateField \<Rightarrow>
   event list \<times> (bool \<times> FieldElementCertificateFieldConfig CustomCertificateField) outcome" where
  "FieldElementCertificateField_IsValid L cfg this =
    (case FieldElementCertificateField_GetFieldElement L cfg this of
       (ev, Returned (fe, this')) \<Rightarrow> (ev, Returned (\<not> IsNull fe, this'))
     | (ev, AssertFailed m) \<Rightarrow> (ev, AssertFailed m)
     | (ev, Threw m) \<Rightarrow> (ev, Threw m)
     | (ev, Undefined) \<Rightarrow> (ev, Undefined))"

text \<open>
  \<^verbatim>\<open>BitVectorCertificateField::GetFieldElement\<close>, from \<^verbatim>\<open>state = VALIDATION_STATE::INVALID\<close>
  to the end.  The size test compares a \<^verbatim>\<open>size_t\<close> with an \<^verbatim>\<open>int32_t\<close>, so the right
  side is converted to \<^verbatim>\<open>size_t\<close> first.
\<close>

definition BitVectorCertificateField_validate ::
  "cctp_constants \<Rightarrow> 'f cctp_lib \<Rightarrow> BitVectorCertificateFieldConfig \<Rightarrow>
   BitVectorCertificateFieldConfig CustomCertificateField \<Rightarrow>
   event list \<times> (CFieldElement \<times> BitVectorCertificateFieldConfig CustomCertificateField) outcome" where
  "BitVectorCertificateField_validate K L cfg this0 =
    (let this = this0\<lparr>state := INVALID, pReferenceCfg := Some cfg\<rparr>
     in if length (vRawData this) > to_size_t (getMaxCompressedSizeBytes cfg) then
          ([], Returned (CFieldElement_Null, this\<lparr>fieldElement := CFieldElement_Null\<rparr>))
        else
          (case zendoo_merkle_root_from_compressed_bytes L (vRawData this) (SC_BV_SIZE_IN_BYTES K) of
             None \<Rightarrow>
               ([Call_zendoo_merkle_root_from_compressed_bytes (vRawData this) (SC_BV_SIZE_IN_BYTES K),
                 LogPrint ''sc'' ''ERROR: could not get merkle root field el from compr bit vector''],
                Returned (CFieldElement_Null, this\<lparr>fieldElement := CFieldElement_Null\<rparr>))
           | Some fe \<Rightarrow>
               ([Call_zendoo_merkle_root_from_compressed_bytes (vRawData this) (SC_BV_SIZE_IN_BYTES K)],
                Returned (CFieldElement_of_field L fe,
                          this\<lparr>fieldElement := CFieldElement_of_field L fe, state := VALID\<rparr>))))"

text \<open>\<^verbatim>\<open>BitVectorCertificateField::GetFieldElement\<close>.\<close>

definition BitVectorCertificateField_GetFieldElement ::
  "cctp_constants \<Rightarrow> 'f cctp_lib \<Rightarrow> BitVectorCertificateFieldConfig \<Rightarrow>
   BitVectorCertificateFieldConfig CustomCertificateField \<Rightarrow>
   event list \<times> (CFieldElement \<times> BitVectorCertificateFieldConfig CustomCertificateField) outcome" where
  "BitVectorCertificateField_GetFieldElement K L cfg this =
    (if state this \<noteq> NOT_INITIALIZED then
       (case pReferenceCfg this of
          None \<Rightarrow> ([], AssertFailed ''pReferenceCfg != nullptr'')
        | Some ref \<Rightarrow>
            if ref = cfg then ([], Returned (fieldElement this, this))
            else BitVectorCertificateField_validate K L cfg (this\<lparr>pReferenceCfg := None\<rparr>))
     else BitVectorCertificateField_validate K L cfg this)"


text \<open>\<^verbatim>\<open>BitVectorCertificateField::operator=\<close> (lines 358--366), which does the same.\<close>

definition BitVectorCertificateField_assign ::
  "BitVectorCertificateFieldConfig CustomCertificateField \<Rightarrow>
   BitVectorCertificateFieldConfig CustomCertificateField \<Rightarrow>
   BitVectorCertificateFieldConfig CustomCertificateField" where
  "BitVectorCertificateField_assign this rhs =
     (let this1 = this\<lparr>vRawData := vRawData rhs\<rparr>
      in case pReferenceCfg rhs of
           Some cfg \<Rightarrow> this1\<lparr>pReferenceCfg := Some cfg\<rparr>
         | None \<Rightarrow> this1\<lparr>pReferenceCfg := None\<rparr>)"

section \<open>rpc/mining.cpp: getblocktemplate\<close>

subsection \<open>Values, errors and the node's state\<close>

text \<open>JSON values as the RPC layer hands them over.\<close>

datatype UniValue =
    VNULL
  | VSTR string
  | VNUM int
  | VBOOL bool
  | VARR "UniValue list"
  | VOBJ "(string \<times> UniValue) list"

definition isNull :: "UniValue \<Rightarrow> bool" where
  "isNull v = (v = VNULL)"

definition isStr :: "UniValue \<Rightarrow> bool" where
  "isStr v = (case v of VSTR s \<Rightarrow> True | _ \<Rightarrow> False)"

text \<open>
  \<^verbatim>\<open>find_value\<close> of the JSON library: the value of the first member with that key, the null
  value when there is none.
\<close>

definition find_value :: "UniValue \<Rightarrow> string \<Rightarrow> UniValue" where
  "find_value obj name =
     (case obj of
        VOBJ members \<Rightarrow> (case map_of members name of Some v \<Rightarrow> v | None \<Rightarrow> VNULL)
      | _ \<Rightarrow> VNULL)"

datatype RPCErrorCode =
    RPC_METHOD_NOT_FOUND
  | RPC_INVALID_PARAMETER
  | RPC_TYPE_ERROR
  | RPC_DESERIALIZATION_ERROR
  | RPC_VERIFY_ERROR
  | RPC_CLIENT_NOT_CONNECTED
  | RPC_CLIENT_IN_INITIAL_DOWNLOAD
  | RPC_OUT_OF_MEMORY

datatype exception =
    JSONRPCError RPCErrorCode string
  | std_runtime_error string
  | std_out_of_range

type_synonym uint256 = nat

text \<open>A \<^verbatim>\<open>CBlockIndex*\<close> that is not null; a pointer that may be null is an option of it.\<close>

type_synonym blockptr = nat

datatype CValidationState = MODE_VALID | MODE_INVALID string | MODE_ERROR string

text \<open>\<^verbatim>\<open>BIP22ValidationResult\<close>; the last line of the source is reached by no state.\<close>

definition BIP22ValidationResult :: "CValidationState \<Rightarrow> exception + UniValue" where
  "BIP22ValidationResult st =
     (case st of
        MODE_VALID \<Rightarrow> Inr VNULL
      | MODE_ERROR strRejectReason \<Rightarrow> Inl (JSONRPCError RPC_VERIFY_ERROR strRejectReason)
      | MODE_INVALID strRejectReason \<Rightarrow>
          if strRejectReason = [] then Inr (VSTR ''rejected'') else Inr (VSTR strRejectReason))"

text \<open>What the proposal branch reads of a decoded block and of a block index entry.\<close>

record CBlock =
  GetHash :: uint256
  hashPrevBlock :: uint256

record CBlockIndex_status =
  IsValid_BLOCK_VALID_SCRIPTS :: bool
  nStatus_BLOCK_FAILED_MASK :: bool

text \<open>
  The node's state as one call can read it at one moment: under \<^verbatim>\<open>cs_main\<close> it does not
  change, so the call sees one such view from its entry to the long-poll wait and another
  one after the wait.
\<close>

record node_view =
  chainActive_Tip :: blockptr
  chainActive_Height :: int
  mempool_GetTransactionsUpdated :: nat
  GetTime :: int
  IsRPCRunning :: bool
  vNodes_empty :: bool
  IsInitialBlockDownload :: bool

text \<open>
  What one pass of the wait loop observes: the best block's hash and whether the RPC server
  runs (the loop's condition), what \<^verbatim>\<open>timed_wait\<close> returns (\<open>False\<close> is the timeout) and the
  mempool's counter read after a timeout.
\<close>

record lp_observation =
  obs_Tip_GetBlockHash :: uint256
  obs_IsRPCRunning :: bool
  obs_timed_wait :: bool
  obs_GetTransactionsUpdated :: nat

text \<open>
  Everything outside the function that a call depends on.  \<open>'t\<close> is \<^verbatim>\<open>CBlockTemplate\<close>;
  \<^verbatim>\<open>CreateNewBlockWithKey\<close> gives \<open>None\<close> for the null pointer.  \<^verbatim>\<open>SetHex\<close>, \<^verbatim>\<open>atoi64\<close> and the
  proposal's collaborators are defined outside the sources at hand and are parameters.
\<close>

record 't gbt_env =
  ENABLE_WALLET :: bool
  mineraddress :: string
  pwalletMain :: bool
  areSidechainsSupported :: "int \<Rightarrow> bool"
  GetBlockHash :: "blockptr \<Rightarrow> uint256"
  SetHex :: "string \<Rightarrow> uint256"
  atoi64 :: "string \<Rightarrow> int"
  DecodeHexBlk :: "string \<Rightarrow> CBlock option"
  mapBlockIndex :: "uint256 \<Rightarrow> CBlockIndex_status option"
  TestBlockValidity :: "CBlock \<Rightarrow> CValidationState"
  at_entry :: node_view
  get_system_time :: int
  wait_observations :: "lp_observation list"
  after_wait :: node_view
  CreateNewBlockWithKey :: "'t option"

text \<open>The function's \<^verbatim>\<open>static\<close> variables, which live from one call to the next.\<close>

record 't gbt_static =
  nTransactionsUpdatedLast :: nat
  pindexPrev :: "blockptr option"
  nStart :: int
  pblocktemplate :: "'t option"
  aMutable :: "string list"

definition initial_static :: "'t gbt_static" where
  "initial_static =
     \<lparr>nTransactionsUpdatedLast = 0, pindexPrev = None, nStart = 0, pblocktemplate = None,
      aMutable = []\<rparr>"

text \<open>
  The template-mode response.  The keys that are serializations of the template (version,
  transactions, coinbasetxn, target, ...) are represented by the template itself; the keys
  below are those decided by the function's own control flow.
\<close>

record 't gbt_response =
  resp_template :: 't
  resp_certificates :: bool
  resp_scTxsCommitment_built :: bool
  resp_longpollid :: "uint256 \<times> nat"
  resp_mutable :: "string list"
  resp_previous :: blockptr

datatype 't gbt_outcome =
    Returns_proposal UniValue
  | Returns_template "'t gbt_response"
  | Throws exception
  | Still_waiting
  | Null_dereference

text \<open>What a call does to the locks, and its call of the block assembler.\<close>

datatype sync_event =
    LOCK_cs_main
  | LEAVE_CRITICAL_SECTION_cs_main
  | ENTER_CRITICAL_SECTION_cs_main
  | lock_csBestBlock
  | unlock_csBestBlock
  | timed_wait int
  | Call_CreateNewBlockWithKey


subsection \<open>The function, part by part\<close>

text \<open>
  Lines 489--497: a wallet or a miner address is required.  \<^verbatim>\<open>ENABLE_WALLET\<close> is the
  compile-time switch.
\<close>

definition check_coinbase_destination :: "'t gbt_env \<Rightarrow> exception option" where
  "check_coinbase_destination env =
     (if mineraddress env = [] then
        (if ENABLE_WALLET env then
           (if \<not> pwalletMain env
            then Some (JSONRPCError RPC_METHOD_NOT_FOUND ''Wallet disabled and -mineraddress not set'')
            else None)
         else Some (JSONRPCError RPC_METHOD_NOT_FOUND
                      ''zend compiled without wallet and -mineraddress not set''))
      else None)"

text \<open>Lines 520--548: the proposal branch, on the request object.\<close>

definition proposal :: "'t gbt_env \<Rightarrow> UniValue \<Rightarrow> 't gbt_outcome" where
  "proposal env oparam =
     (case find_value oparam ''data'' of
        VSTR hex \<Rightarrow>
          (case DecodeHexBlk env hex of
             None \<Rightarrow> Throws (JSONRPCError RPC_DESERIALIZATION_ERROR ''Block decode failed'')
           | Some block \<Rightarrow>
               (case mapBlockIndex env (GetHash block) of
                  Some pindex \<Rightarrow>
                    if IsValid_BLOCK_VALID_SCRIPTS pindex then Returns_proposal (VSTR ''duplicate'')
                    else if nStatus_BLOCK_FAILED_MASK pindex
                    then Returns_proposal (VSTR ''duplicate-invalid'')
                    else Returns_proposal (VSTR ''duplicate-inconclusive'')
                | None \<Rightarrow>
                    if hashPrevBlock block \<noteq> GetBlockHash env (chainActive_Tip (at_entry env))
                    then Returns_proposal (VSTR ''inconclusive-not-best-prevblk'')
                    else (case BIP22ValidationResult (TestBlockValidity env block) of
                            Inl e \<Rightarrow> Throws e
                          | Inr v \<Rightarrow> Returns_proposal v)))
      | _ \<Rightarrow> Throws (JSONRPCError RPC_TYPE_ERROR ''Missing data String key for proposal''))"

text \<open>
  Lines 570--583: the watched pair.  \<^verbatim>\<open>substr(64)\<close> throws \<^verbatim>\<open>std::out_of_range\<close> on a string
  shorter than 64 characters; the \<^verbatim>\<open>int64_t\<close> of \<^verbatim>\<open>atoi64\<close> is assigned to an
  \<^verbatim>\<open>unsigned int\<close>.
\<close>

definition watched :: "'t gbt_env \<Rightarrow> 't gbt_static \<Rightarrow> UniValue \<Rightarrow> exception + (uint256 \<times> nat)" where
  "watched env st lpval =
     (case lpval of
        VSTR lpstr \<Rightarrow>
          if length lpstr < 64 then Inl std_out_of_range
          else Inr (SetHex env (take 64 lpstr), nat (atoi64 env (drop 64 lpstr) mod 2 ^ 32))
      | _ \<Rightarrow>
          Inr (GetBlockHash env (chainActive_Tip (at_entry env)), nTransactionsUpdatedLast st))"

datatype wait_exit = Tip_changed | RPC_stopped | Mempool_changed_at_timeout

text \<open>
  Lines 591--600: the wait loop, one observation per pass.  The result is the calls of
  \<^verbatim>\<open>timed_wait\<close> with their deadlines, the deadline at the end, and how the loop was left;
  \<open>None\<close> when it is still waiting after the last observation.
\<close>

fun wait_loop :: "uint256 \<Rightarrow> nat \<Rightarrow> int \<Rightarrow> lp_observation list \<Rightarrow>
    sync_event list \<times> int \<times> wait_exit option" where
  "wait_loop hashWatchedChain nTransactionsUpdatedLastLP checktxtime [] = ([], checktxtime, None)"
| "wait_loop hashWatchedChain nTransactionsUpdatedLastLP checktxtime (ob # obs) =
    (if obs_Tip_GetBlockHash ob \<noteq> hashWatchedChain then ([], checktxtime, Some Tip_changed)
     else if \<not> obs_IsRPCRunning ob then ([], checktxtime, Some RPC_stopped)
     else if \<not> obs_timed_wait ob then
       (if obs_GetTransactionsUpdated ob \<noteq> nTransactionsUpdatedLastLP
        then ([timed_wait checktxtime], checktxtime, Some Mempool_changed_at_timeout)
        else (case wait_loop hashWatchedChain nTransactionsUpdatedLastLP (checktxtime + 10) obs of
                (ev, t, x) \<Rightarrow> (timed_wait checktxtime # ev, t, x)))
     else (case wait_loop hashWatchedChain nTransactionsUpdatedLastLP checktxtime obs of
             (ev, t, x) \<Rightarrow> (timed_wait checktxtime # ev, t, x)))"

text \<open>
  Lines 563--607: the long poll.  The result is the view of the node the rest of the call
  works on, or how the call ends here.  Without a \<^verbatim>\<open>longpollid\<close> nothing is waited for.
\<close>

definition longpoll :: "'t gbt_env \<Rightarrow> 't gbt_static \<Rightarrow> UniValue \<Rightarrow>
    sync_event list \<times> ('t gbt_outcome + node_view)" where
  "longpoll env st lpval =
     (if \<not> isNull lpval then
        (case watched env st lpval of
           Inl e \<Rightarrow> ([], Inl (Throws e))
         | Inr (hashWatchedChain, nTransactionsUpdatedLastLP) \<Rightarrow>
             (case wait_loop hashWatchedChain nTransactionsUpdatedLastLP
                     (get_system_time env + 60) (wait_observations env) of
                (ev, t, None) \<Rightarrow>
                  (LEAVE_CRITICAL_SECTION_cs_main # lock_csBestBlock # ev, Inl Still_waiting)
              | (ev, t, Some x) \<Rightarrow>
                  (LEAVE_CRITICAL_SECTION_cs_main # lock_csBestBlock # ev
                     @ [unlock_csBestBlock, ENTER_CRITICAL_SECTION_cs_main],
                   if \<not> IsRPCRunning (after_wait env)
                   then Inl (Throws (JSONRPCError RPC_CLIENT_NOT_CONNECTED ''Shutting down''))
                   else Inr (after_wait env))))
      else ([], Inr (at_entry env)))"

text \<open>Lines 613--614: the condition under which the cached template is built anew.\<close>

definition template_is_stale :: "node_view \<Rightarrow> 't gbt_static \<Rightarrow> bool" where
  "template_is_stale now st =
     (pindexPrev st \<noteq> Some (chainActive_Tip now)
      \<or> (mempool_GetTransactionsUpdated now \<noteq> nTransactionsUpdatedLast st
          \<and> GetTime now - nStart st > 5))"

text \<open>Lines 616--629: what is done before the block assembler is called.\<close>

definition before_CreateNewBlock :: "node_view \<Rightarrow> 't gbt_static \<Rightarrow> 't gbt_static" where
  "before_CreateNewBlock now st =
     st\<lparr>pindexPrev := None,
        nTransactionsUpdatedLast := mempool_GetTransactionsUpdated now,
        nStart := GetTime now,
        pblocktemplate := None\<rparr>"

text \<open>Lines 610--641: the update of the cached template.\<close>

definition update_block :: "'t gbt_env \<Rightarrow> node_view \<Rightarrow> 't gbt_static \<Rightarrow>
    sync_event list \<times> exception option \<times> 't gbt_static" where
  "update_block env now st =
     (if template_is_stale now st then
        (let pindexPrevNew = chainActive_Tip now;
             st1 = (before_CreateNewBlock now st)\<lparr>pblocktemplate := CreateNewBlockWithKey env\<rparr>
         in if pblocktemplate st1 = None
            then ([Call_CreateNewBlockWithKey],
                  Some (JSONRPCError RPC_OUT_OF_MEMORY ''Out of memory''), st1)
            else ([Call_CreateNewBlockWithKey], None, st1\<lparr>pindexPrev := Some pindexPrevNew\<rparr>))
      else ([], None, st))"

text \<open>Lines 701--711: the array \<^verbatim>\<open>aMutable\<close> is \<^verbatim>\<open>static\<close> and filled while it is empty.\<close>

definition fill_aMutable :: "bool \<Rightarrow> 't gbt_static \<Rightarrow> 't gbt_static" where
  "fill_aMutable certSupported st =
     (if aMutable st = [] then
        st\<lparr>aMutable := [''time'', ''transactions'']
                        @ (if certSupported then [''certificates''] else [])
                        @ [''prevblock'']\<rparr>
      else st)"

text \<open>
  Lines 642--773: the response.  \<^verbatim>\<open>pblocktemplate\<close> and \<^verbatim>\<open>pindexPrev\<close> are dereferenced
  without a test.
\<close>

definition build_response :: "'t gbt_env \<Rightarrow> node_view \<Rightarrow> bool \<Rightarrow> 't gbt_static \<Rightarrow>
    't gbt_outcome \<times> 't gbt_static" where
  "build_response env now certSupported st =
     (case pblocktemplate st of
        None \<Rightarrow> (Null_dereference, st)
      | Some tpl \<Rightarrow>
          (case pindexPrev st of
             None \<Rightarrow> (Null_dereference, st)
           | Some prev \<Rightarrow>
               (let st' = fill_aMutable certSupported st
                in (Returns_template
                      \<lparr>resp_template = tpl,
                       resp_certificates = certSupported,
                       resp_scTxsCommitment_built = certSupported,
                       resp_longpollid =
                         (GetBlockHash env (chainActive_Tip now), nTransactionsUpdatedLast st'),
                       resp_mutable = aMutable st',
                       resp_previous = prev\<rparr>,
                    st'))))"

text \<open>Lines 551--773: template mode, after the request has been read.\<close>

definition template_mode :: "'t gbt_env \<Rightarrow> bool \<Rightarrow> string \<Rightarrow> UniValue \<Rightarrow> 't gbt_static \<Rightarrow>
    sync_event list \<times> 't gbt_outcome \<times> 't gbt_static" where
  "template_mode env certSupported strMode lpval st =
     (if strMode \<noteq> ''template'' then
        ([], Throws (JSONRPCError RPC_INVALID_PARAMETER ''Invalid mode''), st)
      else if vNodes_empty (at_entry env) then
        ([], Throws (JSONRPCError RPC_CLIENT_NOT_CONNECTED ''Horizen is not connected!''), st)
      else if IsInitialBlockDownload (at_entry env) then
        ([], Throws (JSONRPCError RPC_CLIENT_IN_INITIAL_DOWNLOAD ''Horizen is downloading blocks...''),
         st)
      else
        (case longpoll env st lpval of
           (ev, Inl out) \<Rightarrow> (ev, out, st)
         | (ev, Inr now) \<Rightarrow>
             (case update_block env now st of
                (ev', Some e, st') \<Rightarrow> (ev @ ev', Throws e, st')
              | (ev', None, st') \<Rightarrow>
                  (case build_response env now certSupported st' of
                     (out, st'') \<Rightarrow> (ev @ ev', out, st'')))))"

text \<open>
  \<^verbatim>\<open>getblocktemplate\<close>: the request parameters, the help flag and the static variables go
  in; the lock events, the way the call ends and the static variables afterwards come out.
\<close>

definition getblocktemplate :: "'t gbt_env \<Rightarrow> UniValue list \<Rightarrow> bool \<Rightarrow> 't gbt_static \<Rightarrow>
    sync_event list \<times> 't gbt_outcome \<times> 't gbt_static" where
  "getblocktemplate env params fHelp st =
     (if fHelp \<or> length params > 1 then ([], Throws (std_runtime_error ''getblocktemplate''), st)
      else
        (case check_coinbase_destination env of
           Some e \<Rightarrow> ([LOCK_cs_main], Throws e, st)
         | None \<Rightarrow>
             (let nHeight = chainActive_Height (at_entry env) + 1;
                  certSupported = areSidechainsSupported env nHeight
              in case params of
                   [] \<Rightarrow>
                     (case template_mode env certSupported ''template'' VNULL st of
                        (ev, r) \<Rightarrow> (LOCK_cs_main # ev, r))
                 | p # ps \<Rightarrow>
                     (case p of
                        VOBJ members \<Rightarrow>
                          (let oparam = p;
                               modeval = find_value oparam ''mode''
                           in if \<not> isStr modeval \<and> \<not> isNull modeval then
                                ([LOCK_cs_main],
                                 Throws (JSONRPCError RPC_INVALID_PARAMETER ''Invalid mode''), st)
                              else
                                (let strMode = (case modeval of VSTR s \<Rightarrow> s | _ \<Rightarrow> ''template'');
                                     lpval = find_value oparam ''longpollid''
                                 in if strMode = ''proposal''
                                    then ([LOCK_cs_main], proposal env oparam, st)
                                    else (case template_mode env certSupported strMode lpval st of
                                            (ev, r) \<Rightarrow> (LOCK_cs_main # ev, r))))
                      | _ \<Rightarrow>
                          ([LOCK_cs_main],
                           Throws (std_runtime_error ''JSON value is not an object as expected''),
                           st)))))"

section \<open>Vocabulary of the statements on custom fields\<close>

text \<open>The call returns, and the field element it returns is not Null.\<close>

definition returns_nonnull :: "event list \<times> (CFieldElement \<times> 'o) outcome \<Rightarrow> bool" where
  "returns_nonnull r = (case snd r of Returned (fe, this') \<Rightarrow> \<not> IsNull fe | _ \<Rightarrow> False)"

text \<open>The call returns, and the field element it returns is Null.\<close>

definition returns_Null :: "event list \<times> (CFieldElement \<times> 'o) outcome \<Rightarrow> bool" where
  "returns_Null r = (case snd r of Returned (fe, this') \<Rightarrow> IsNull fe | _ \<Rightarrow> False)"

text \<open>The field element a call returns, if it returns.\<close>

definition returned_field :: "event list \<times> (CFieldElement \<times> 'o) outcome \<Rightarrow> CFieldElement option" where
  "returned_field r = (case snd r of Returned (fe, this') \<Rightarrow> Some fe | _ \<Rightarrow> None)"

text \<open>The events that are calls into the library.\<close>

definition is_library_call :: "event \<Rightarrow> bool" where
  "is_library_call e =
     (case e of
        Call_zendoo_deserialize_field buf \<Rightarrow> True
      | Call_zendoo_merkle_root_from_compressed_bytes buf sz \<Rightarrow> True
      | _ \<Rightarrow> False)"

text \<open>The raw data has exactly \<open>ceil(b / 8)\<close> bytes: \<open>n\<close> is that number when
  \<open>8 * (n - 1) < b \<le> 8 * n\<close>.\<close>

definition raw_size_matches :: "int \<Rightarrow> byte list \<Rightarrow> bool" where
  "raw_size_matches b raw = (8 * (int (length raw) - 1) < b \<and> b \<le> 8 * int (length raw))"

text \<open>When \<open>b\<close> is not a multiple of 8, the \<open>8 * length raw - b\<close> low-order bits of the last
  raw byte (the reserved padding bits) are zero.\<close>

definition padding_is_zero :: "int \<Rightarrow> byte list \<Rightarrow> bool" where
  "padding_is_zero b raw =
     (if b mod 8 = 0 then True
      else raw \<noteq> [] \<and> list_all (\<lambda>i. \<not> bit (last raw) i) [0..<nat (8 * int (length raw) - b)])"

text \<open>The raw data with zero bytes put in front, up to the field element's byte size.\<close>

definition left_padded :: "'f cctp_lib \<Rightarrow> byte list \<Rightarrow> byte list" where
  "left_padded L raw = replicate (ByteSize L - length raw) 0 @ raw"

text \<open>The library accepts the buffer as a field element (an empty buffer never is one).\<close>

definition deserializes :: "'f cctp_lib \<Rightarrow> byte list \<Rightarrow> bool" where
  "deserializes L buf = (buf \<noteq> [] \<and> zendoo_deserialize_field L buf \<noteq> None)"

text \<open>The three conditions of a valid field-element field, together.\<close>

definition FE_conditions :: "'f cctp_lib \<Rightarrow> FieldElementCertificateFieldConfig \<Rightarrow> byte list \<Rightarrow> bool" where
  "FE_conditions L cfg raw =
     (raw_size_matches (getBitSize cfg) raw
      \<and> padding_is_zero (getBitSize cfg) raw
      \<and> length raw \<le> ByteSize L
      \<and> deserializes L (left_padded L raw))"


text \<open>What a failed validation returns: the Null element, and the object marked invalid.\<close>

definition FE_failed :: "FieldElementCertificateFieldConfig \<Rightarrow>
    FieldElementCertificateFieldConfig CustomCertificateField \<Rightarrow>
    CFieldElement \<times> FieldElementCertificateFieldConfig CustomCertificateField" where
  "FE_failed cfg this =
     (CFieldElement_Null,
      this\<lparr>state := INVALID, fieldElement := CFieldElement_Null, pReferenceCfg := Some cfg\<rparr>)"

text \<open>The state of a field object whose cache, if any, is what validating its raw data against
  its reference configuration gives.  The constructor establishes it and \<^verbatim>\<open>GetFieldElement\<close>
  keeps it (lemmas \<open>FE_new_consistent\<close>, \<open>FE_GetFieldElement_preserves\<close>), so it holds of
  every object that is built from raw bytes and then used through \<^verbatim>\<open>GetFieldElement\<close> and
  \<^verbatim>\<open>IsValid\<close>.\<close>

definition FE_cache_consistent ::
  "'f cctp_lib \<Rightarrow> FieldElementCertificateFieldConfig CustomCertificateField \<Rightarrow> bool" where
  "FE_cache_consistent L this =
     (if state this = NOT_INITIALIZED then True
      else (case pReferenceCfg this of
              None \<Rightarrow> False
            | Some ref \<Rightarrow>
                snd (FieldElementCertificateField_validate L ref this)
                  = Returned (fieldElement this, this)))"

text \<open>The same for bit vector fields (lemmas \<open>BV_new_consistent\<close>,
  \<open>BV_GetFieldElement_preserves\<close>).\<close>

definition BV_cache_consistent ::
  "cctp_constants \<Rightarrow> 'f cctp_lib \<Rightarrow> BitVectorCertificateFieldConfig CustomCertificateField \<Rightarrow> bool" where
  "BV_cache_consistent K L this =
     (if state this = NOT_INITIALIZED then True
      else (case pReferenceCfg this of
              None \<Rightarrow> False
            | Some ref \<Rightarrow>
                snd (BitVectorCertificateField_validate K L ref this)
                  = Returned (fieldElement this, this)))"

subsection \<open>Example values\<close>

text \<open>A small stand-in for the library, to run the model on: field elements of four bytes, the
  deserializer accepting the buffers whose first byte is below 128, and a decompressor that
  accepts the payloads starting with a zero byte.\<close>

definition example_lib :: "nat cctp_lib" where
  "example_lib =
     \<lparr>ByteSize = 4,
      zendoo_deserialize_field =
        (\<lambda>buf. if length buf = 4 \<and> hd buf < 128
               then Some (foldl (\<lambda>a x. a * 256 + unat x) 0 buf) else None),
      zendoo_serialize_field = (\<lambda>n. map (\<lambda>k. word_of_nat (n div 256 ^ k)) [3, 2, 1, 0]),
      zendoo_merkle_root_from_compressed_bytes =
        (\<lambda>raw sz. if raw = [] \<or> hd raw \<noteq> 0 then None else Some (length raw + sz))\<rparr>"

text \<open>Two field-element configurations, two bit vector configurations, and the objects a
  first call leaves behind for the raw data \<open>[0x2B, 0xC0]\<close> and \<open>[0, 7, 7]\<close>.\<close>

definition c10 :: FieldElementCertificateFieldConfig where "c10 = \<lparr>nBits = 10\<rparr>"

definition c16 :: FieldElementCertificateFieldConfig where "c16 = \<lparr>nBits = 16\<rparr>"

definition bv1 :: BitVectorCertificateFieldConfig where
  "bv1 = \<lparr>bitVectorSizeBits = 254 * 8, maxCompressedSizeBytes = 1024\<rparr>"

definition bv2 :: BitVectorCertificateFieldConfig where
  "bv2 = \<lparr>bitVectorSizeBits = 254 * 8, maxCompressedSizeBytes = 2\<rparr>"

definition f1 :: "FieldElementCertificateFieldConfig CustomCertificateField" where
  "f1 = \<lparr>vRawData = [0x2B, 0xC0], state = VALID, fieldElement = [0, 0, 0x2B, 0xC0],
          pReferenceCfg = Some c10\<rparr>"

definition b1 :: "BitVectorCertificateFieldConfig CustomCertificateField" where
  "b1 = \<lparr>vRawData = [0, 7, 7], state = VALID,
          fieldElement = CFieldElement_of_field example_lib 1000195,
          pReferenceCfg = Some bv1\<rparr>"


definition b2 :: "BitVectorCertificateFieldConfig CustomCertificateField" where
  "b2 = \<lparr>vRawData = replicate 1025 0, state = INVALID, fieldElement = CFieldElement_Null,
          pReferenceCfg = Some bv1\<rparr>"

section \<open>Vocabulary of the statements on getblocktemplate\<close>

text \<open>How a call ends, and the static variables it leaves.\<close>

definition outcome_of :: "sync_event list \<times> 't gbt_outcome \<times> 't gbt_static \<Rightarrow> 't gbt_outcome" where
  "outcome_of r = fst (snd r)"

definition static_after :: "sync_event list \<times> 't gbt_outcome \<times> 't gbt_static \<Rightarrow> 't gbt_static" where
  "static_after r = snd (snd r)"

text \<open>The code of a JSON-RPC error.\<close>

definition error_code :: "'t gbt_outcome \<Rightarrow> RPCErrorCode option" where
  "error_code out = (case out of Throws (JSONRPCError c m) \<Rightarrow> Some c | _ \<Rightarrow> None)"

text \<open>The call returns a template-mode response.\<close>

definition returns_a_template :: "'t gbt_outcome \<Rightarrow> bool" where
  "returns_a_template out = (case out of Returns_template r \<Rightarrow> True | _ \<Rightarrow> False)"

text \<open>A request whose one parameter is an object with \<open>"mode": "proposal"\<close>.\<close>

definition is_proposal_request :: "UniValue list \<Rightarrow> bool" where
  "is_proposal_request params =
     (length params = 1
      \<and> (case hd params of
            VOBJ members \<Rightarrow> map_of members ''mode'' = Some (VSTR ''proposal'')
          | _ \<Rightarrow> False))"

text \<open>No miner address is set, and there is no wallet (none compiled in, or none loaded).\<close>

definition no_coinbase_destination :: "'t gbt_env \<Rightarrow> bool" where
  "no_coinbase_destination env =
     (mineraddress env = [] \<and> (if ENABLE_WALLET env then \<not> pwalletMain env else True))"

text \<open>The same environment with other answers to "no peer connected" and "initial block
  download".\<close>

definition with_peers_and_download :: "bool \<Rightarrow> bool \<Rightarrow> 't gbt_env \<Rightarrow> 't gbt_env" where
  "with_peers_and_download no_peers downloading env =
     env\<lparr>at_entry := (at_entry env)\<lparr>vNodes_empty := no_peers,
                                      IsInitialBlockDownload := downloading\<rparr>\<rparr>"

text \<open>An observation on which the wait loop goes on: the tip is the watched one, the RPC server
  runs, and the wait was notified or, at a timeout, the mempool counter is the watched one.\<close>

definition keeps_waiting :: "uint256 \<Rightarrow> nat \<Rightarrow> lp_observation \<Rightarrow> bool" where
  "keeps_waiting h n ob =
     (obs_Tip_GetBlockHash ob = h \<and> obs_IsRPCRunning ob
      \<and> (obs_timed_wait ob \<or> obs_GetTransactionsUpdated ob = n))"

text \<open>Why the loop stops at an observation on which it does not go on.\<close>

definition exit_reason :: "uint256 \<Rightarrow> nat \<Rightarrow> lp_observation \<Rightarrow> wait_exit" where
  "exit_reason h n ob =
     (if obs_Tip_GetBlockHash ob \<noteq> h then Tip_changed
      else if \<not> obs_IsRPCRunning ob then RPC_stopped
      else Mempool_changed_at_timeout)"

text \<open>The events that are calls of \<^verbatim>\<open>timed_wait\<close>.\<close>

definition is_timed_wait :: "sync_event \<Rightarrow> bool" where
  "is_timed_wait e = (case e of timed_wait t \<Rightarrow> True | _ \<Rightarrow> False)"

text \<open>The number of timeouts among some observations.\<close>

definition timeouts :: "lp_observation list \<Rightarrow> nat" where
  "timeouts obs = length (filter (\<lambda>ob. \<not> obs_timed_wait ob) obs)"



text \<open>A node to run the model on: the tip at a given height, a given mempool counter, peers
  connected, no initial download.\<close>

definition example_view :: "int \<Rightarrow> nat \<Rightarrow> node_view" where
  "example_view height counter =
     \<lparr>chainActive_Tip = nat height, chainActive_Height = height,
      mempool_GetTransactionsUpdated = counter, GetTime = 1000, IsRPCRunning = True,
      vNodes_empty = False, IsInitialBlockDownload = False\<rparr>"

text \<open>An environment around that node: sidechains are supported from height 20 on, the hash of
  the block index \<open>p\<close> is \<open>7000 + p\<close>, and the assembler gives a template.\<close>

definition example_env :: "int \<Rightarrow> nat \<Rightarrow> lp_observation list \<Rightarrow> nat gbt_env" where
  "example_env height counter obs =
     \<lparr>ENABLE_WALLET = True, mineraddress = ''zn'', pwalletMain = True,
      areSidechainsSupported = (\<lambda>nHeight. 20 \<le> nHeight),
      GetBlockHash = (\<lambda>pindex. 7000 + pindex),
      SetHex = (\<lambda>str. if str = replicate 64 (CHR ''a'') then 7010 else 0),
      atoi64 = (\<lambda>str. if str = ''5'' then 5 else 0),
      DecodeHexBlk = (\<lambda>str. if str = ''00'' then Some \<lparr>GetHash = 1, hashPrevBlock = 2\<rparr> else None),
      mapBlockIndex = (\<lambda>hash. None),
      TestBlockValidity = (\<lambda>block. MODE_VALID),
      at_entry = example_view height counter,
      get_system_time = 1000,
      wait_observations = obs,
      after_wait = example_view (height + 1) counter,
      CreateNewBlockWithKey = Some (nat height)\<rparr>"

text \<open>Three passes of the wait loop: a timeout with the counter unchanged, a notification with the
  tip unchanged, and a new tip.\<close>

definition example_observations :: "lp_observation list" where
  "example_observations =
     [\<lparr>obs_Tip_GetBlockHash = 7010, obs_IsRPCRunning = True, obs_timed_wait = False,
       obs_GetTransactionsUpdated = 0\<rparr>,
      \<lparr>obs_Tip_GetBlockHash = 7010, obs_IsRPCRunning = True, obs_timed_wait = True,
       obs_GetTransactionsUpdated = 0\<rparr>,
      \<lparr>obs_Tip_GetBlockHash = 7011, obs_IsRPCRunning = True, obs_timed_wait = True,
       obs_GetTransactionsUpdated = 0\<rparr>]"

section \<open>Lemmas on custom fields\<close>

lemma trailing_zeros_ge:
  assumes "k \<le> 8"
  shows "(int k \<le> getTrailingZeroBitsInByte w) = list_all (\<lambda>i. \<not> bit w i) [0..<k]"
proof
  assume a: "int k \<le> getTrailingZeroBitsInByte w"
  let ?tw = "takeWhile (\<lambda>i. \<not> bit w i) [0..<8]"
  from a have k: "k \<le> length ?tw" by (simp add: getTrailingZeroBitsInByte_def)
  have "\<not> bit w i" if "i < k" for i
  proof -
    from that k have lt: "i < length ?tw" by simp
    then have "?tw ! i \<in> set ?tw" by (rule nth_mem)
    then have "\<not> bit w (?tw ! i)" by (auto dest: set_takeWhileD)
    moreover have "?tw ! i = [0..<8] ! i" using lt by (rule takeWhile_nth)
    moreover have "i < 8" using that assms by simp
    ultimately show ?thesis by simp
  qed
  then show "list_all (\<lambda>i. \<not> bit w i) [0..<k]" by (simp add: list_all_iff)
next
  assume a: "list_all (\<lambda>i. \<not> bit w i) [0..<k]"
  have "k \<le> length (takeWhile (\<lambda>i. \<not> bit w i) [0..<8])"
  proof (rule length_takeWhile_less_P_nth)
    show "\<not> bit w ([0..<8] ! i)" if "i < k" for i
      using a assms that by (auto simp: list_all_iff)
    show "k \<le> length [0..<8]" using assms by simp
  qed
  then show "int k \<le> getTrailingZeroBitsInByte w" by (simp add: getTrailingZeroBitsInByte_def)
qed

lemma FE_validate_ignores_cache:
  "vRawData this = vRawData that \<Longrightarrow>
   FieldElementCertificateField_validate L cfg (this :: FieldElementCertificateFieldConfig CustomCertificateField)
     = FieldElementCertificateField_validate L cfg that"
  unfolding FieldElementCertificateField_validate_def
  by (cases this, cases that) simp

lemma ceil8_unique:
  fixes m q r b :: int
  assumes "b + 7 = 8 * q + r" "0 \<le> r" "r < 8"
  shows "(m = q) = (8 * (m - 1) < b \<and> b \<le> 8 * m)"
proof
  assume "m = q"
  with assms show "8 * (m - 1) < b \<and> b \<le> 8 * m" by auto
next
  assume a: "8 * (m - 1) < b \<and> b \<le> 8 * m"
  from a have a1: "8 * (m - 1) < b" and a2: "b \<le> 8 * m" by simp_all
  have "\<not> m < q" using a1 a2 assms by arith
  moreover have "\<not> q < m" using a1 a2 assms by arith
  ultimately show "m = q" by simp
qed

lemma bytes_needed_iff:
  "(int n = (b + 7) div 8) = (8 * (int n - 1) < b \<and> b \<le> 8 * int n)"
proof (rule ceil8_unique)
  show "b + 7 = 8 * ((b + 7) div 8) + (b + 7) mod 8" by simp
  show "0 \<le> (b + 7) mod 8" by simp
  show "(b + 7) mod 8 < 8" by simp
qed

lemma padding_count:
  assumes "int n = (b + 7) div 8" "b mod 8 \<noteq> 0"
  shows "8 * int n - b = 8 - b mod 8"
proof -
  define q where "q = b div 8"
  define r where "r = b mod 8"
  have b: "b = 8 * q + r" unfolding q_def r_def by simp
  have r: "0 < r" "r < 8"
    using assms(2) pos_mod_sign [of 8 b] pos_mod_bound [of 8 b] unfolding r_def by simp_all
  have "b + 7 = 8 * (q + 1) + (r - 1)" using b by simp
  moreover have "0 \<le> r - 1" "r - 1 < 8" using r by simp_all
  ultimately have "(int n = q + 1) = (8 * (int n - 1) < b \<and> b \<le> 8 * int n)"
    by (rule ceil8_unique)
  moreover have "8 * (int n - 1) < b \<and> b \<le> 8 * int n"
    using bytes_needed_iff [of n b] assms(1) by simp
  ultimately have "int n = q + 1" by simp
  then show ?thesis using b unfolding r_def [symmetric] by simp
qed

lemma IsValid_deserializes:
  "snd (CFieldElement_IsValid L buf) = deserializes L buf"
  by (auto simp: CFieldElement_IsValid_def CFieldElement_GetFieldElement_def deserializes_def
      split: option.splits)

lemma FE_validate_nonnull_iff:
  fixes this :: "FieldElementCertificateFieldConfig CustomCertificateField"
  shows "returns_nonnull (FieldElementCertificateField_validate L cfg this) =
     (raw_size_matches (getBitSize cfg) (vRawData this)
      \<and> padding_is_zero (getBitSize cfg) (vRawData this)
      \<and> length (vRawData this) \<le> ByteSize L
      \<and> deserializes L (left_padded L (vRawData this)))"
proof -
  define b where "b = getBitSize cfg"
  define raw where "raw = vRawData this"
  define n where "n = length raw"
  have sz: "(int n = (b + 7) div 8) = raw_size_matches b raw"
    unfolding raw_size_matches_def n_def by (rule bytes_needed_iff)
  show ?thesis
  proof (cases "b \<le> int (BitSize L)")
    case False
    then have "\<not> (raw_size_matches b raw \<and> n \<le> ByteSize L)"
      by (auto simp: raw_size_matches_def BitSize_def n_def)
    with False show ?thesis
      by (auto simp: FieldElementCertificateField_validate_def returns_nonnull_def
          b_def raw_def n_def Let_def)
  next
    case le: True
    show ?thesis
    proof (cases "int n = (b + 7) div 8")
      case False
      with le sz show ?thesis
        by (simp add: FieldElementCertificateField_validate_def returns_nonnull_def
            b_def raw_def n_def Let_def getBytesFromBits_def IsNull_def CFieldElement_Null_def)
    next
      case size: True
      have fits: "n \<le> ByteSize L"
        using size le by (simp add: BitSize_def)
      show ?thesis
      proof (cases "b mod 8 = 0")
        case True
        then have pad: "padding_is_zero b raw" by (simp add: padding_is_zero_def)
        have "returns_nonnull (FieldElementCertificateField_validate L cfg this)
               = snd (CFieldElement_IsValid L (left_padded L raw))"
          using le size True fits
          by (simp add: FieldElementCertificateField_validate_def returns_nonnull_def
            b_def raw_def n_def Let_def getBytesFromBits_def IsNull_def CFieldElement_Null_def
            left_padded_def CFieldElement_IsValid_def CFieldElement_GetFieldElement_def
            split: option.splits)
        with pad sz size fits show ?thesis
          by (simp add: IsValid_deserializes b_def raw_def n_def)
      next
        case rem: False
        show ?thesis
        proof (cases "raw = []")
          case True
          with le size rem show ?thesis
            by (simp add: FieldElementCertificateField_validate_def returns_nonnull_def
              b_def raw_def n_def Let_def getBytesFromBits_def padding_is_zero_def)
        next
          case ne: False
          have cnt: "8 * int n - b = 8 - b mod 8" using size rem by (rule padding_count)
          have k8: "nat (8 - b mod 8) \<le> 8" by simp
          have m8: "b mod 8 \<le> 8" using pos_mod_bound [of 8 b] by simp
          have tz: "(getTrailingZeroBitsInByte (last raw) < CHAR_BIT - b mod 8)
                     = (\<not> padding_is_zero b raw)"
            using trailing_zeros_ge [OF k8, of "last raw"] rem ne cnt m8
            by (simp add: padding_is_zero_def CHAR_BIT_def n_def not_le [symmetric])
          show ?thesis
          proof (cases "padding_is_zero b raw")
            case False
            with le size rem ne tz show ?thesis
              by (simp add: FieldElementCertificateField_validate_def returns_nonnull_def
                b_def raw_def n_def Let_def getBytesFromBits_def IsNull_def CFieldElement_Null_def)
          next
            case pad: True
            have "returns_nonnull (FieldElementCertificateField_validate L cfg this)
               = snd (CFieldElement_IsValid L (left_padded L raw))"
              using le size rem ne tz pad fits
              by (simp add: FieldElementCertificateField_validate_def returns_nonnull_def
                b_def raw_def n_def Let_def getBytesFromBits_def IsNull_def CFieldElement_Null_def
                left_padded_def CFieldElement_IsValid_def CFieldElement_GetFieldElement_def
                split: option.splits)
            with pad sz size fits show ?thesis
              by (simp add: IsValid_deserializes b_def raw_def n_def)
          qed
        qed
      qed
    qed
  qed
qed

lemma FE_validate_result:
  fixes this :: "FieldElementCertificateFieldConfig CustomCertificateField"
  assumes "snd (FieldElementCertificateField_validate L cfg this) = Returned (fe, this')"
  shows "this' = this\<lparr>state := state this', fieldElement := fe, pReferenceCfg := Some cfg\<rparr>
         \<and> state this' \<noteq> NOT_INITIALIZED"
  using assms unfolding FieldElementCertificateField_validate_def Let_def
  by (auto split: if_splits prod.splits bool.splits)

lemma FE_validate_fixpoint:
  fixes this :: "FieldElementCertificateFieldConfig CustomCertificateField"
  assumes "snd (FieldElementCertificateField_validate L cfg this) = Returned (fe, this')"
  shows "vRawData this' = vRawData this" "pReferenceCfg this' = Some cfg"
    "fieldElement this' = fe" "state this' \<noteq> NOT_INITIALIZED"
proof -
  from FE_validate_result [OF assms]
  have eq: "this' = this\<lparr>state := state this', fieldElement := fe, pReferenceCfg := Some cfg\<rparr>"
    and st: "state this' \<noteq> NOT_INITIALIZED" by simp_all
  show "vRawData this' = vRawData this" by (subst eq) simp
  show "pReferenceCfg this' = Some cfg" by (subst eq) simp
  show "fieldElement this' = fe" by (subst eq) simp
  show "state this' \<noteq> NOT_INITIALIZED" by (rule st)
qed

lemma FE_GetFieldElement_consistent:
  fixes this :: "FieldElementCertificateFieldConfig CustomCertificateField"
  assumes "FE_cache_consistent L this"
  shows "snd (FieldElementCertificateField_GetFieldElement L cfg this)
         = snd (FieldElementCertificateField_validate L cfg this)"
proof (cases "state this = NOT_INITIALIZED")
  case True
  then show ?thesis by (simp add: FieldElementCertificateField_GetFieldElement_def)
next
  case False
  with assms obtain ref where ref: "pReferenceCfg this = Some ref"
    and v: "snd (FieldElementCertificateField_validate L ref this) = Returned (fieldElement this, this)"
    by (auto simp: FE_cache_consistent_def split: option.splits)
  have ign: "FieldElementCertificateField_validate L cfg (this\<lparr>pReferenceCfg := None\<rparr>)
             = FieldElementCertificateField_validate L cfg this"
    by (rule FE_validate_ignores_cache) simp
  show ?thesis
  proof (cases "ref = cfg")
    case True
    with False ref v show ?thesis
      by (simp add: FieldElementCertificateField_GetFieldElement_def)
  next
    case neq: False
    with False ref ign show ?thesis
      by (simp add: FieldElementCertificateField_GetFieldElement_def)
  qed
qed

lemma FE_new_consistent:
  "FE_cache_consistent L (new_CustomCertificateField rawBytes)"
  by (simp add: FE_cache_consistent_def new_CustomCertificateField_def)

lemma FE_GetFieldElement_preserves:
  fixes this :: "FieldElementCertificateFieldConfig CustomCertificateField"
  assumes "FE_cache_consistent L this"
    and "snd (FieldElementCertificateField_GetFieldElement L cfg this) = Returned (fe, this')"
  shows "FE_cache_consistent L this'"
proof -
  have v: "snd (FieldElementCertificateField_validate L cfg this) = Returned (fe, this')"
    using assms FE_GetFieldElement_consistent by metis
  note fp = FE_validate_fixpoint [OF v]
  have "FieldElementCertificateField_validate L cfg this'
        = FieldElementCertificateField_validate L cfg this"
    by (rule FE_validate_ignores_cache) (rule fp(1))
  with v fp show ?thesis by (simp add: FE_cache_consistent_def)
qed

lemma Null_or_nonnull:
  "returns_Null r = (returns_normally r \<and> \<not> returns_nonnull r)"
  by (auto simp: returns_Null_def returns_normally_def returns_nonnull_def
      split: outcome.splits prod.splits)

lemma FE_validate_returns:
  fixes this :: "FieldElementCertificateFieldConfig CustomCertificateField"
  assumes "0 \<le> getBitSize cfg" "getBitSize cfg \<le> int (BitSize L)"
  shows "returns_normally (FieldElementCertificateField_validate L cfg this)"
proof -
  define b where "b = getBitSize cfg"
  define n where "n = length (vRawData this)"
  show ?thesis
  proof (cases "int n = (b + 7) div 8")
    case False
    with assms show ?thesis
      by (simp add: FieldElementCertificateField_validate_def returns_normally_def
          b_def n_def Let_def getBytesFromBits_def)
  next
    case size: True
    have fits: "n \<le> ByteSize L"
      using size assms(2) by (simp add: BitSize_def b_def)
    have ne: "vRawData this \<noteq> []" if "b mod 8 \<noteq> 0"
    proof
      assume "vRawData this = []"
      then have "(b + 7) div 8 = 0" using size by (simp add: n_def)
      then have "b + 7 < 8" using assms(1) unfolding b_def
        by (simp add: div_pos_pos_trivial pos_imp_zdiv_pos_iff not_le [symmetric])
      with assms(1) have "b = 0" by (simp add: b_def)
      with that show False by simp
    qed
    show ?thesis
      using size fits ne assms
      by (auto simp: FieldElementCertificateField_validate_def returns_normally_def
          b_def n_def Let_def getBytesFromBits_def CFieldElement_IsValid_def
          CFieldElement_GetFieldElement_def split: option.splits)
  qed
qed




lemma FE_validate_wrong_size:
  fixes this :: "FieldElementCertificateFieldConfig CustomCertificateField"
  assumes "getBitSize cfg \<le> int (BitSize L)"
    and "\<not> raw_size_matches (getBitSize cfg) (vRawData this)"
  shows "FieldElementCertificateField_validate L cfg this
         = ([LogPrint ''sc'' ''ERROR: wrong size''], Returned (FE_failed cfg this))"
proof -
  have "int (length (vRawData this)) \<noteq> (getBitSize cfg + 7) div 8"
    using assms(2) bytes_needed_iff [of "length (vRawData this)" "getBitSize cfg"]
    by (simp add: raw_size_matches_def)
  with assms(1) show ?thesis
    by (simp add: FieldElementCertificateField_validate_def Let_def getBytesFromBits_def
        FE_failed_def)
qed

lemma FE_validate_wrong_padding:
  fixes this :: "FieldElementCertificateFieldConfig CustomCertificateField"
  assumes "0 \<le> getBitSize cfg" "getBitSize cfg \<le> int (BitSize L)"
    and "raw_size_matches (getBitSize cfg) (vRawData this)"
    and "\<not> padding_is_zero (getBitSize cfg) (vRawData this)"
  shows "FieldElementCertificateField_validate L cfg this
         = ([LogPrint ''sc'' ''ERROR: wrong number of null bits in last byte''],
            Returned (FE_failed cfg this))"
proof -
  define b where "b = getBitSize cfg"
  define raw where "raw = vRawData this"
  have size: "int (length raw) = (b + 7) div 8"
    using assms(3) bytes_needed_iff [of "length raw" b]
    by (simp add: raw_size_matches_def b_def raw_def)
  have rem: "b mod 8 \<noteq> 0" using assms(4) by (auto simp: padding_is_zero_def b_def)
  have ne: "raw \<noteq> []"
  proof
    assume "raw = []"
    then have "b \<le> 0" using assms(3) by (simp add: raw_size_matches_def b_def raw_def)
    with assms(1) have "b = 0" by (simp add: b_def)
    with rem show False by simp
  qed
  have cnt: "8 * int (length raw) - b = 8 - b mod 8" using size rem by (rule padding_count)
  have k8: "nat (8 - b mod 8) \<le> 8" by simp
  have m8: "b mod 8 \<le> 8" using pos_mod_bound [of 8 b] by simp
  have tz: "getTrailingZeroBitsInByte (last raw) < CHAR_BIT - b mod 8"
    using trailing_zeros_ge [OF k8, of "last raw"] rem ne cnt m8 assms(4)
    by (simp add: padding_is_zero_def CHAR_BIT_def not_le [symmetric] b_def raw_def)
  show ?thesis
    using assms(2) size rem ne tz
    by (simp add: FieldElementCertificateField_validate_def Let_def getBytesFromBits_def
        FE_failed_def b_def raw_def)
qed

lemma FE_validate_deserialize:
  fixes this :: "FieldElementCertificateFieldConfig CustomCertificateField"
  assumes "getBitSize cfg \<le> int (BitSize L)"
    and "raw_size_matches (getBitSize cfg) (vRawData this)"
    and "padding_is_zero (getBitSize cfg) (vRawData this)"
  shows "FieldElementCertificateField_validate L cfg this
         = (fst (CFieldElement_IsValid L (left_padded L (vRawData this))),
            Returned
              (if deserializes L (left_padded L (vRawData this))
               then (left_padded L (vRawData this),
                     this\<lparr>state := VALID, fieldElement := left_padded L (vRawData this),
                          pReferenceCfg := Some cfg\<rparr>)
               else FE_failed cfg this))"
proof -
  define b where "b = getBitSize cfg"
  define raw where "raw = vRawData this"
  have size: "int (length raw) = (b + 7) div 8"
    using assms(2) bytes_needed_iff [of "length raw" b]
    by (simp add: raw_size_matches_def b_def raw_def)
  have fits: "length raw \<le> ByteSize L"
    using size assms(1) by (simp add: BitSize_def b_def)
  have len: "length (replicate (ByteSize L - length raw) (0 :: byte) @ raw) = ByteSize L"
    using fits by simp
  have tz: "\<not> getTrailingZeroBitsInByte (last raw) < CHAR_BIT - b mod 8
            \<and> raw \<noteq> []" if rem: "b mod 8 \<noteq> 0"
  proof -
    from assms(3) rem have ne: "raw \<noteq> []" by (simp add: padding_is_zero_def b_def raw_def)
    have cnt: "8 * int (length raw) - b = 8 - b mod 8" using size rem by (rule padding_count)
    have k8: "nat (8 - b mod 8) \<le> 8" by simp
    have m8: "b mod 8 \<le> 8" using pos_mod_bound [of 8 b] by simp
    show ?thesis
      using trailing_zeros_ge [OF k8, of "last raw"] rem ne cnt m8 assms(3)
      by (simp add: padding_is_zero_def CHAR_BIT_def not_le [symmetric] b_def raw_def)
  qed
  show ?thesis
  proof (cases "deserializes L (left_padded L raw)")
    case True
    then have "snd (CFieldElement_IsValid L (left_padded L raw))"
      by (simp add: IsValid_deserializes)
    then obtain ev where ev: "CFieldElement_IsValid L (left_padded L raw) = (ev, True)"
      by (cases "CFieldElement_IsValid L (left_padded L raw)") simp
    then have ev': "CFieldElement_IsValid L (replicate (ByteSize L - length raw) 0 @ raw) = (ev, True)"
      by (simp add: left_padded_def)
    show ?thesis
    proof (cases "b mod 8 = 0")
      case z: True
      show ?thesis
        using assms(1) size fits z True len
        by (simp add: FieldElementCertificateField_validate_def Let_def getBytesFromBits_def
          ev' ev b_def [symmetric] raw_def [symmetric] del: length_append length_replicate)
          (simp add: left_padded_def)
    next
      case nz: False
      show ?thesis
        using assms(1) size fits nz tz [OF nz] True len
        by (simp add: FieldElementCertificateField_validate_def Let_def getBytesFromBits_def
          ev' ev b_def [symmetric] raw_def [symmetric] del: length_append length_replicate)
          (simp add: left_padded_def)
    qed
  next
    case False
    then have "\<not> snd (CFieldElement_IsValid L (left_padded L raw))"
      by (simp add: IsValid_deserializes)
    then obtain ev where ev: "CFieldElement_IsValid L (left_padded L raw) = (ev, False)"
      by (cases "CFieldElement_IsValid L (left_padded L raw)") simp
    then have ev': "CFieldElement_IsValid L (replicate (ByteSize L - length raw) 0 @ raw) = (ev, False)"
      by (simp add: left_padded_def)
    show ?thesis
    proof (cases "b mod 8 = 0")
      case z: True
      show ?thesis
        using assms(1) size fits z False len
        by (simp add: FieldElementCertificateField_validate_def Let_def getBytesFromBits_def
          ev' ev b_def [symmetric] raw_def [symmetric] FE_failed_def
          del: length_append length_replicate)
    next
      case nz: False
      show ?thesis
        using assms(1) size fits nz tz [OF nz] False len
        by (simp add: FieldElementCertificateField_validate_def Let_def getBytesFromBits_def
          ev' ev b_def [symmetric] raw_def [symmetric] FE_failed_def
          del: length_append length_replicate)
    qed
  qed
qed

lemma BV_validate_cases:
  fixes this :: "BitVectorCertificateFieldConfig CustomCertificateField"
  shows "BitVectorCertificateField_validate K L cfg this =
    (if length (vRawData this) > to_size_t (getMaxCompressedSizeBytes cfg) then
       ([], Returned (CFieldElement_Null,
          this\<lparr>state := INVALID, fieldElement := CFieldElement_Null, pReferenceCfg := Some cfg\<rparr>))
     else
       (case zendoo_merkle_root_from_compressed_bytes L (vRawData this) (SC_BV_SIZE_IN_BYTES K) of
          None \<Rightarrow>
            ([Call_zendoo_merkle_root_from_compressed_bytes (vRawData this) (SC_BV_SIZE_IN_BYTES K),
              LogPrint ''sc'' ''ERROR: could not get merkle root field el from compr bit vector''],
             Returned (CFieldElement_Null,
               this\<lparr>state := INVALID, fieldElement := CFieldElement_Null,
                    pReferenceCfg := Some cfg\<rparr>))
        | Some fe \<Rightarrow>
            ([Call_zendoo_merkle_root_from_compressed_bytes (vRawData this) (SC_BV_SIZE_IN_BYTES K)],
             Returned (CFieldElement_of_field L fe,
               this\<lparr>state := VALID, fieldElement := CFieldElement_of_field L fe,
                    pReferenceCfg := Some cfg\<rparr>))))"
  by (cases this) (simp add: BitVectorCertificateField_validate_def Let_def split: option.splits)

lemma BV_validate_ignores_cache:
  "vRawData this = vRawData that \<Longrightarrow>
   BitVectorCertificateField_validate K L cfg (this :: BitVectorCertificateFieldConfig CustomCertificateField)
     = BitVectorCertificateField_validate K L cfg that"
  by (cases this, cases that) (simp add: BV_validate_cases split: option.splits)

lemma BV_validate_fixpoint:
  fixes this :: "BitVectorCertificateFieldConfig CustomCertificateField"
  assumes "snd (BitVectorCertificateField_validate K L cfg this) = Returned (fe, this')"
  shows "vRawData this' = vRawData this" "pReferenceCfg this' = Some cfg"
    "fieldElement this' = fe" "state this' \<noteq> NOT_INITIALIZED"
  using assms unfolding BV_validate_cases
  by (auto split: if_splits option.splits)

lemma BV_validate_returns:
  fixes this :: "BitVectorCertificateFieldConfig CustomCertificateField"
  shows "returns_normally (BitVectorCertificateField_validate K L cfg this)"
  unfolding BV_validate_cases by (simp add: returns_normally_def split: option.splits)

lemma BV_GetFieldElement_consistent:
  fixes this :: "BitVectorCertificateFieldConfig CustomCertificateField"
  assumes "BV_cache_consistent K L this"
  shows "snd (BitVectorCertificateField_GetFieldElement K L cfg this)
         = snd (BitVectorCertificateField_validate K L cfg this)"
proof (cases "state this = NOT_INITIALIZED")
  case True
  then show ?thesis by (simp add: BitVectorCertificateField_GetFieldElement_def)
next
  case False
  with assms obtain ref where ref: "pReferenceCfg this = Some ref"
    and v: "snd (BitVectorCertificateField_validate K L ref this) = Returned (fieldElement this, this)"
    by (auto simp: BV_cache_consistent_def split: option.splits)
  have ign: "BitVectorCertificateField_validate K L cfg (this\<lparr>pReferenceCfg := None\<rparr>)
             = BitVectorCertificateField_validate K L cfg this"
    by (rule BV_validate_ignores_cache) simp
  show ?thesis
  proof (cases "ref = cfg")
    case True
    with False ref v show ?thesis
      by (simp add: BitVectorCertificateField_GetFieldElement_def)
  next
    case neq: False
    with False ref ign show ?thesis
      by (simp add: BitVectorCertificateField_GetFieldElement_def)
  qed
qed

lemma BV_new_consistent:
  "BV_cache_consistent K L (new_CustomCertificateField rawBytes)"
  by (simp add: BV_cache_consistent_def new_CustomCertificateField_def)

lemma BV_GetFieldElement_preserves:
  fixes this :: "BitVectorCertificateFieldConfig CustomCertificateField"
  assumes "BV_cache_consistent K L this"
    and "snd (BitVectorCertificateField_GetFieldElement K L cfg this) = Returned (fe, this')"
  shows "BV_cache_consistent K L this'"
proof -
  have v: "snd (BitVectorCertificateField_validate K L cfg this) = Returned (fe, this')"
    using assms BV_GetFieldElement_consistent by metis
  note fp = BV_validate_fixpoint [OF v]
  have "BitVectorCertificateField_validate K L cfg this'
        = BitVectorCertificateField_validate K L cfg this"
    by (rule BV_validate_ignores_cache) (rule fp(1))
  with v fp show ?thesis by (simp add: BV_cache_consistent_def)
qed

lemma FE_GetFieldElement_fresh:
  fixes this :: "FieldElementCertificateFieldConfig CustomCertificateField"
  shows "state this = NOT_INITIALIZED \<Longrightarrow>
    FieldElementCertificateField_GetFieldElement L cfg this
      = FieldElementCertificateField_validate L cfg this"
  by (simp add: FieldElementCertificateField_GetFieldElement_def)

lemma BV_GetFieldElement_fresh:
  fixes this :: "BitVectorCertificateFieldConfig CustomCertificateField"
  shows "state this = NOT_INITIALIZED \<Longrightarrow>
    BitVectorCertificateField_GetFieldElement K L cfg this
      = BitVectorCertificateField_validate K L cfg this"
  by (simp add: BitVectorCertificateField_GetFieldElement_def)

lemma FE_GetFieldElement_result:
  fixes this :: "FieldElementCertificateFieldConfig CustomCertificateField"
  assumes "snd (FieldElementCertificateField_GetFieldElement L cfg this) = Returned (fe, this1)"
  shows "vRawData this1 = vRawData this \<and> pReferenceCfg this1 = Some cfg
         \<and> fieldElement this1 = fe \<and> state this1 \<noteq> NOT_INITIALIZED"
proof (cases "state this \<noteq> NOT_INITIALIZED \<and> pReferenceCfg this = Some cfg")
  case True
  with assms show ?thesis
    by (auto simp: FieldElementCertificateField_GetFieldElement_def)
next
  case False
  then have "\<exists>that. vRawData that = vRawData this
     \<and> snd (FieldElementCertificateField_validate L cfg that) = Returned (fe, this1)"
    using assms
    by (cases "state this = NOT_INITIALIZED"; cases "pReferenceCfg this")
       (auto simp: FieldElementCertificateField_GetFieldElement_def split: if_splits
          intro: exI [of _ this] exI [of _ "this\<lparr>pReferenceCfg := None\<rparr>"])
  then obtain that where "vRawData that = vRawData this"
     "snd (FieldElementCertificateField_validate L cfg that) = Returned (fe, this1)" by blast
  with FE_validate_fixpoint [of L cfg that fe this1] show ?thesis by simp
qed

lemma BV_GetFieldElement_result:
  fixes this :: "BitVectorCertificateFieldConfig CustomCertificateField"
  assumes "snd (BitVectorCertificateField_GetFieldElement K L cfg this) = Returned (fe, this1)"
  shows "vRawData this1 = vRawData this \<and> pReferenceCfg this1 = Some cfg
         \<and> fieldElement this1 = fe \<and> state this1 \<noteq> NOT_INITIALIZED"
proof (cases "state this \<noteq> NOT_INITIALIZED \<and> pReferenceCfg this = Some cfg")
  case True
  with assms show ?thesis
    by (auto simp: BitVectorCertificateField_GetFieldElement_def)
next
  case False
  then have "\<exists>that. vRawData that = vRawData this
     \<and> snd (BitVectorCertificateField_validate K L cfg that) = Returned (fe, this1)"
    using assms
    by (cases "state this = NOT_INITIALIZED"; cases "pReferenceCfg this")
       (auto simp: BitVectorCertificateField_GetFieldElement_def split: if_splits
          intro: exI [of _ this] exI [of _ "this\<lparr>pReferenceCfg := None\<rparr>"])
  then obtain that where "vRawData that = vRawData this"
     "snd (BitVectorCertificateField_validate K L cfg that) = Returned (fe, this1)" by blast
  with BV_validate_fixpoint [of K L cfg that fe this1] show ?thesis by simp
qed

lemma to_size_t_nonneg: "0 \<le> m \<Longrightarrow> m < 2 ^ 31 \<Longrightarrow> to_size_t m = nat m"
  by (simp add: to_size_t_def)

lemmas eval_simps = upt_conv_Cons bit_numeral_rec example_lib_def agreeing_constants_def
  new_CustomCertificateField_def CFieldElement_Null_def getBitSize_def BitSize_def
  getMaxCompressedSizeBytes_def to_size_t_def IsNull_def CHAR_BIT_def

text \<open>
  \<^verbatim>\<open>CheckTypeSizes\<close> as it is written ends in one of two ways, and the first of its five
  comparisons is the only one with an offset.
\<close>

lemma CheckTypeSizes_returns_iff:
  "returns_normally (CheckTypeSizes K R) =
     (zendoo_get_field_size_in_bytes R = SC_FIELD_SIZE K + 1
      \<and> zendoo_get_sc_vk_size_in_bytes R = SC_VK_SIZE K
      \<and> zendoo_get_sc_proof_size_in_bytes R = SC_PROOF_SIZE K
      \<and> zendoo_get_sc_bit_vector_size_in_bytes R = SC_BV_SIZE_IN_BYTES K
      \<and> zendoo_get_sc_custom_data_size_in_bytes R = SC_CUSTOM_DATA_MAX_SIZE K)
   \<and> aborts (CheckTypeSizes K R) = (\<not> returns_normally (CheckTypeSizes K R))"
  by (auto simp: CheckTypeSizes_def aborts_def returns_normally_def)

text \<open>
  What the consistency of the cache excludes: a validated bit vector field assigned from an
  object holding 1025 bytes keeps its cached root, and returns it against the limit 1024.
\<close>

lemma BV_stale_after_assignment:
  "int (length (vRawData (BitVectorCertificateField_assign b1 b2)))
     > getMaxCompressedSizeBytes bv1
   \<and> 0 \<le> getMaxCompressedSizeBytes bv1
   \<and> returns_nonnull (BitVectorCertificateField_GetFieldElement agreeing_constants example_lib bv1
          (BitVectorCertificateField_assign b1 b2))"
  by (simp add: BitVectorCertificateField_assign_def b1_def b2_def bv1_def
      getMaxCompressedSizeBytes_def BitVectorCertificateField_GetFieldElement_def
      returns_nonnull_def IsNull_def CFieldElement_of_field_def example_lib_def)

section \<open>Theorems on sc/sidechaintypes.cpp\<close>

text \<open>
  C1 (the code at the failing input).  A library that reports exactly \<^verbatim>\<open>SC_FIELD_SIZE\<close> for
  the field element, and the four other sizes as in the header: every reported size equals
  its constant, and yet the first check prints "unexpected CCTP field element size", fails
  the assertion "field element size mismatch between rust CCTP lib and c header" and the
  process aborts.  The four checks after it compare with the bare constant.
\<close>

theorem C1_equal_sizes_abort:
  "zendoo_get_field_size_in_bytes agreeing_sizes = SC_FIELD_SIZE agreeing_constants
   \<and> zendoo_get_sc_vk_size_in_bytes agreeing_sizes = SC_VK_SIZE agreeing_constants
   \<and> zendoo_get_sc_proof_size_in_bytes agreeing_sizes = SC_PROOF_SIZE agreeing_constants
   \<and> zendoo_get_sc_bit_vector_size_in_bytes agreeing_sizes = SC_BV_SIZE_IN_BYTES agreeing_constants
   \<and> zendoo_get_sc_custom_data_size_in_bytes agreeing_sizes = SC_CUSTOM_DATA_MAX_SIZE agreeing_constants
   \<and> aborts (CheckTypeSizes agreeing_constants agreeing_sizes)
   \<and> \<not> returns_normally (CheckTypeSizes agreeing_constants agreeing_sizes)"
  by (simp add: agreeing_constants_def agreeing_sizes_def CheckTypeSizes_def aborts_def
      returns_normally_def)




text \<open>
  C3.  For both kinds of field: when a call of \<^verbatim>\<open>GetFieldElement\<close> with a configuration has
  returned, a second call with an equal configuration returns the same element, leaves the
  object as it is, and does nothing else (no library call, no log line).  A call with a
  different configuration behaves in every respect (events, result, object afterwards) as
  the first call on a new object with the same raw data does, and an object it returns has
  the new configuration as its reference.
\<close>

theorem C3_memoized_validation:
  fixes thisF :: "FieldElementCertificateFieldConfig CustomCertificateField"
    and thisB :: "BitVectorCertificateFieldConfig CustomCertificateField"
  shows
  "(snd (FieldElementCertificateField_GetFieldElement L cfgF thisF) = Returned (feF, thisF1) \<longrightarrow>
      FieldElementCertificateField_GetFieldElement L cfgF thisF1 = ([], Returned (feF, thisF1))
      \<and> (cfgF' \<noteq> cfgF \<longrightarrow>
            FieldElementCertificateField_GetFieldElement L cfgF' thisF1
              = FieldElementCertificateField_GetFieldElement L cfgF'
                  (new_CustomCertificateField (vRawData thisF))
            \<and> (\<forall>fe' this2.
                 snd (FieldElementCertificateField_GetFieldElement L cfgF' thisF1)
                   = Returned (fe', this2) \<longrightarrow> pReferenceCfg this2 = Some cfgF')))
   \<and> (snd (BitVectorCertificateField_GetFieldElement K L cfgB thisB) = Returned (feB, thisB1) \<longrightarrow>
      BitVectorCertificateField_GetFieldElement K L cfgB thisB1 = ([], Returned (feB, thisB1))
      \<and> (cfgB' \<noteq> cfgB \<longrightarrow>
            BitVectorCertificateField_GetFieldElement K L cfgB' thisB1
              = BitVectorCertificateField_GetFieldElement K L cfgB'
                  (new_CustomCertificateField (vRawData thisB))
            \<and> (\<forall>fe' this2.
                 snd (BitVectorCertificateField_GetFieldElement K L cfgB' thisB1)
                   = Returned (fe', this2) \<longrightarrow> pReferenceCfg this2 = Some cfgB')))"
proof (intro conjI impI allI)
  assume a: "snd (FieldElementCertificateField_GetFieldElement L cfgF thisF) = Returned (feF, thisF1)"
  note r = FE_GetFieldElement_result [OF a]
  from r show "FieldElementCertificateField_GetFieldElement L cfgF thisF1 = ([], Returned (feF, thisF1))"
    by (simp add: FieldElementCertificateField_GetFieldElement_def)
  {
    assume neq: "cfgF' \<noteq> cfgF"
    have "FieldElementCertificateField_GetFieldElement L cfgF' thisF1
          = FieldElementCertificateField_validate L cfgF' (thisF1\<lparr>pReferenceCfg := None\<rparr>)"
      using r neq by (auto simp: FieldElementCertificateField_GetFieldElement_def)
    also have "\<dots> = FieldElementCertificateField_validate L cfgF'
                       (new_CustomCertificateField (vRawData thisF))"
      by (rule FE_validate_ignores_cache) (simp add: r new_CustomCertificateField_def)
    also have "\<dots> = FieldElementCertificateField_GetFieldElement L cfgF'
                       (new_CustomCertificateField (vRawData thisF))"
      by (simp add: FieldElementCertificateField_GetFieldElement_def new_CustomCertificateField_def)
    finally show "FieldElementCertificateField_GetFieldElement L cfgF' thisF1
              = FieldElementCertificateField_GetFieldElement L cfgF'
                  (new_CustomCertificateField (vRawData thisF))" .
  }
  {
    fix fe' this2
    assume "snd (FieldElementCertificateField_GetFieldElement L cfgF' thisF1) = Returned (fe', this2)"
    from FE_GetFieldElement_result [OF this] show "pReferenceCfg this2 = Some cfgF'" by simp
  }
next
  assume a: "snd (BitVectorCertificateField_GetFieldElement K L cfgB thisB) = Returned (feB, thisB1)"
  note r = BV_GetFieldElement_result [OF a]
  from r show "BitVectorCertificateField_GetFieldElement K L cfgB thisB1 = ([], Returned (feB, thisB1))"
    by (simp add: BitVectorCertificateField_GetFieldElement_def)
  {
    assume neq: "cfgB' \<noteq> cfgB"
    have "BitVectorCertificateField_GetFieldElement K L cfgB' thisB1
          = BitVectorCertificateField_validate K L cfgB' (thisB1\<lparr>pReferenceCfg := None\<rparr>)"
      using r neq by (auto simp: BitVectorCertificateField_GetFieldElement_def)
    also have "\<dots> = BitVectorCertificateField_validate K L cfgB'
                       (new_CustomCertificateField (vRawData thisB))"
      by (rule BV_validate_ignores_cache) (simp add: r new_CustomCertificateField_def)
    also have "\<dots> = BitVectorCertificateField_GetFieldElement K L cfgB'
                       (new_CustomCertificateField (vRawData thisB))"
      by (simp add: BitVectorCertificateField_GetFieldElement_def new_CustomCertificateField_def)
    finally show "BitVectorCertificateField_GetFieldElement K L cfgB' thisB1
              = BitVectorCertificateField_GetFieldElement K L cfgB'
                  (new_CustomCertificateField (vRawData thisB))" .
  }
  {
    fix fe' this2
    assume "snd (BitVectorCertificateField_GetFieldElement K L cfgB' thisB1) = Returned (fe', this2)"
    from BV_GetFieldElement_result [OF this] show "pReferenceCfg this2 = Some cfgB'" by simp
  }
qed

text \<open>
  The theorem at the example objects: the cached element comes back untouched, and a
  different configuration validates anew.
\<close>

theorem C3_memoized_validation_witness:
  "FieldElementCertificateField_GetFieldElement example_lib c10 f1
     = ([], Returned ([0, 0, 0x2B, 0xC0], f1))
   \<and> FieldElementCertificateField_GetFieldElement example_lib c16 f1
     = FieldElementCertificateField_GetFieldElement example_lib c16
         (new_CustomCertificateField [0x2B, 0xC0])
   \<and> BitVectorCertificateField_GetFieldElement agreeing_constants example_lib bv1 b1
     = ([], Returned (CFieldElement_of_field example_lib 1000195, b1))
   \<and> BitVectorCertificateField_GetFieldElement agreeing_constants example_lib bv2 b1
     = BitVectorCertificateField_GetFieldElement agreeing_constants example_lib bv2
         (new_CustomCertificateField [0, 7, 7])"
proof -
  have rep: "replicate 2 (0 :: byte) = [0, 0]" by (simp add: numeral_2_eq_2)
  have e1: "snd (FieldElementCertificateField_GetFieldElement example_lib c10
              (new_CustomCertificateField [0x2B, 0xC0]))
            = Returned ([0, 0, 0x2B, 0xC0], f1)"
    by (simp add: FieldElementCertificateField_GetFieldElement_def
        FieldElementCertificateField_validate_def getBytesFromBits_def
        getTrailingZeroBitsInByte_def CFieldElement_IsValid_def CFieldElement_GetFieldElement_def
        c10_def f1_def eval_simps Let_def rep)
  have e2: "snd (BitVectorCertificateField_GetFieldElement agreeing_constants example_lib bv1
              (new_CustomCertificateField [0, 7, 7]))
            = Returned (CFieldElement_of_field example_lib 1000195, b1)"
    by (simp add: BitVectorCertificateField_GetFieldElement_def
        BitVectorCertificateField_validate_def bv1_def b1_def eval_simps)
  have n1: "c16 \<noteq> c10" by (simp add: c16_def c10_def)
  have n2: "bv2 \<noteq> bv1" by (simp add: bv2_def bv1_def)
  have r1: "vRawData (new_CustomCertificateField [0x2B, 0xC0]
      :: FieldElementCertificateFieldConfig CustomCertificateField) = [0x2B, 0xC0]"
    by (simp add: new_CustomCertificateField_def)
  have r2: "vRawData (new_CustomCertificateField [0, 7, 7]
      :: BitVectorCertificateFieldConfig CustomCertificateField) = [0, 7, 7]"
    by (simp add: new_CustomCertificateField_def)
  from C3_memoized_validation [of example_lib c10 "new_CustomCertificateField [0x2B, 0xC0]" "[0, 0, 0x2B, 0xC0]" f1
      c16 agreeing_constants bv1 "new_CustomCertificateField [0, 7, 7]"
      "CFieldElement_of_field example_lib 1000195" b1 bv2] e1 e2 n1 n2
  show ?thesis unfolding r1 r2 by blast
qed

text \<open>
  C4 (as stated, refuted).  The claim is made for every configuration.  The size test
  compares \<^verbatim>\<open>vRawData.size()\<close> with the \<^verbatim>\<open>int32_t\<close> limit after converting the limit to
  \<^verbatim>\<open>size_t\<close>; with the limit \<open>-1\<close> three bytes of raw data exceed the limit, and yet the
  data is passed to the library, whose root is returned.
\<close>

theorem C4_negative_limit_not_Null:
  "int (length [0, 1, 2 :: byte])
     > maxCompressedSizeBytes \<lparr>bitVectorSizeBits = 2032, maxCompressedSizeBytes = - 1\<rparr>
   \<and> returns_nonnull (BitVectorCertificateField_GetFieldElement agreeing_constants example_lib
        \<lparr>bitVectorSizeBits = 2032, maxCompressedSizeBytes = - 1\<rparr>
        (new_CustomCertificateField [0, 1, 2]))"
  by (simp add: BitVectorCertificateField_GetFieldElement_def BitVectorCertificateField_validate_def
      returns_nonnull_def CFieldElement_of_field_def eval_simps)

text \<open>
  C4 (amended).  For a bit vector field whose cache is consistent (every object built from
  raw bytes and used through \<^verbatim>\<open>GetFieldElement\<close> and \<^verbatim>\<open>IsValid\<close> only, not overwritten by
  \<^verbatim>\<open>operator=\<close>) and a configuration whose
  \<open>maxCompressedSizeBytes\<close> is not negative (every valid configuration is such):
  \<^verbatim>\<open>GetFieldElement\<close> returns Null when the raw data is longer than the limit; otherwise its
  result is decided by the library's decompression of the raw data with the expected size
  \<^verbatim>\<open>SC_BV_SIZE_IN_BYTES\<close>: Null when the library fails, and otherwise the serialized root,
  which is also cached in the object, marked valid.  A validation (a call on an object not yet
  initialized) calls the library once, with that constant.  The configuration's
  \<open>bitVectorSizeBits\<close> has no influence on the element returned.
\<close>

theorem C4_bit_vector_validation:
  fixes this :: "BitVectorCertificateFieldConfig CustomCertificateField"
  assumes "BV_cache_consistent K L this"
    and "0 \<le> getMaxCompressedSizeBytes cfg" and "getMaxCompressedSizeBytes cfg < 2 ^ 31"
  shows
   "(int (length (vRawData this)) > getMaxCompressedSizeBytes cfg \<longrightarrow>
       returns_Null (BitVectorCertificateField_GetFieldElement K L cfg this))
    \<and> (int (length (vRawData this)) \<le> getMaxCompressedSizeBytes cfg \<longrightarrow>
         (case zendoo_merkle_root_from_compressed_bytes L (vRawData this) (SC_BV_SIZE_IN_BYTES K) of
            None \<Rightarrow> returns_Null (BitVectorCertificateField_GetFieldElement K L cfg this)
          | Some root \<Rightarrow>
              snd (BitVectorCertificateField_GetFieldElement K L cfg this)
                = Returned (CFieldElement_of_field L root,
                    this\<lparr>state := VALID, fieldElement := CFieldElement_of_field L root,
                         pReferenceCfg := Some cfg\<rparr>)))
    \<and> (state this = NOT_INITIALIZED
         \<and> int (length (vRawData this)) \<le> getMaxCompressedSizeBytes cfg \<longrightarrow>
         filter is_library_call (fst (BitVectorCertificateField_GetFieldElement K L cfg this))
           = [Call_zendoo_merkle_root_from_compressed_bytes (vRawData this) (SC_BV_SIZE_IN_BYTES K)])
    \<and> returned_field (BitVectorCertificateField_GetFieldElement K L
           (cfg\<lparr>bitVectorSizeBits := n\<rparr>) this)
        = returned_field (BitVectorCertificateField_GetFieldElement K L cfg this)"
proof -
  have sz: "to_size_t (getMaxCompressedSizeBytes cfg) = nat (getMaxCompressedSizeBytes cfg)"
    using assms(2,3) by (rule to_size_t_nonneg)
  have gt: "(length (vRawData this) > to_size_t (getMaxCompressedSizeBytes cfg))
            = (int (length (vRawData this)) > getMaxCompressedSizeBytes cfg)"
    unfolding sz using assms(2) by linarith
  note c = BV_GetFieldElement_consistent [OF assms(1)]
  have 1: "int (length (vRawData this)) > getMaxCompressedSizeBytes cfg \<longrightarrow>
       returns_Null (BitVectorCertificateField_GetFieldElement K L cfg this)"
    using gt by (simp add: returns_Null_def c BV_validate_cases IsNull_def CFieldElement_Null_def)
  have 2: "int (length (vRawData this)) \<le> getMaxCompressedSizeBytes cfg \<longrightarrow>
         (case zendoo_merkle_root_from_compressed_bytes L (vRawData this) (SC_BV_SIZE_IN_BYTES K) of
            None \<Rightarrow> returns_Null (BitVectorCertificateField_GetFieldElement K L cfg this)
          | Some root \<Rightarrow>
              snd (BitVectorCertificateField_GetFieldElement K L cfg this)
                = Returned (CFieldElement_of_field L root,
                    this\<lparr>state := VALID, fieldElement := CFieldElement_of_field L root,
                         pReferenceCfg := Some cfg\<rparr>))"
    using gt by (simp add: returns_Null_def c BV_validate_cases IsNull_def CFieldElement_Null_def
        split: option.splits)
  have 3: "state this = NOT_INITIALIZED
         \<and> int (length (vRawData this)) \<le> getMaxCompressedSizeBytes cfg \<longrightarrow>
         filter is_library_call (fst (BitVectorCertificateField_GetFieldElement K L cfg this))
           = [Call_zendoo_merkle_root_from_compressed_bytes (vRawData this) (SC_BV_SIZE_IN_BYTES K)]"
    using gt by (simp add: BV_GetFieldElement_fresh BV_validate_cases is_library_call_def
        split: option.splits)
  have "returned_field (BitVectorCertificateField_validate K L (cfg\<lparr>bitVectorSizeBits := n\<rparr>) this)
      = returned_field (BitVectorCertificateField_validate K L cfg this)"
    by (simp add: returned_field_def BV_validate_cases getMaxCompressedSizeBytes_def
        split: option.splits)
  then have 4: "returned_field (BitVectorCertificateField_GetFieldElement K L
           (cfg\<lparr>bitVectorSizeBits := n\<rparr>) this)
        = returned_field (BitVectorCertificateField_GetFieldElement K L cfg this)"
    by (simp add: returned_field_def BV_GetFieldElement_consistent [OF assms(1)])
  from 1 2 3 4 show ?thesis by blast
qed

text \<open>
  The theorem at the limit 1024: a payload of 1025 bytes gives Null; a payload of three bytes
  is decompressed with the expected size 1000192, the value of the constant here.
\<close>

theorem C4_bit_vector_validation_witness:
  "BV_cache_consistent agreeing_constants example_lib (new_CustomCertificateField (replicate 1025 0))
   \<and> returns_Null (BitVectorCertificateField_GetFieldElement agreeing_constants example_lib
        \<lparr>bitVectorSizeBits = 254 * 8, maxCompressedSizeBytes = 1024\<rparr>
        (new_CustomCertificateField (replicate 1025 0)))
   \<and> returned_field (BitVectorCertificateField_GetFieldElement agreeing_constants example_lib
        \<lparr>bitVectorSizeBits = 254 * 8, maxCompressedSizeBytes = 1024\<rparr>
        (new_CustomCertificateField [0, 7, 7]))
      = Some (CFieldElement_of_field example_lib 1000195)
   \<and> filter is_library_call (fst (BitVectorCertificateField_GetFieldElement agreeing_constants
        example_lib \<lparr>bitVectorSizeBits = 254 * 8, maxCompressedSizeBytes = 1024\<rparr>
        (new_CustomCertificateField [0, 7, 7])))
      = [Call_zendoo_merkle_root_from_compressed_bytes [0, 7, 7] 1000192]"
proof -
  let ?cfg = "\<lparr>bitVectorSizeBits = 254 * 8, maxCompressedSizeBytes = 1024\<rparr>"
  let ?big = "new_CustomCertificateField (replicate 1025 0)
                :: BitVectorCertificateFieldConfig CustomCertificateField"
  let ?ok = "new_CustomCertificateField [0, 7, 7]
                :: BitVectorCertificateFieldConfig CustomCertificateField"
  have h1: "BV_cache_consistent agreeing_constants example_lib ?big" by (rule BV_new_consistent)
  have h2: "BV_cache_consistent agreeing_constants example_lib ?ok" by (rule BV_new_consistent)
  have m: "0 \<le> getMaxCompressedSizeBytes ?cfg" "getMaxCompressedSizeBytes ?cfg < 2 ^ 31"
    by (simp_all add: getMaxCompressedSizeBytes_def)
  from C4_bit_vector_validation [OF h1 m, of 0] C4_bit_vector_validation [OF h2 m, of 0] h1 show ?thesis
    by (simp add: eval_simps returned_field_def)
qed

text \<open>
  C8 (as stated, refuted).  With field elements of four bytes, a configuration of 33 bits
  fails the assertion \<^verbatim>\<open>cfg.getBitSize() <= CFieldElement::BitSize()\<close>: the call aborts.
\<close>

theorem C8_oversized_bit_size_aborts:
  "aborts (FieldElementCertificateField_GetFieldElement example_lib \<lparr>nBits = 33\<rparr>
     (new_CustomCertificateField [1, 2, 3, 4, 5]))"
  by (simp add: FieldElementCertificateField_GetFieldElement_def
      FieldElementCertificateField_validate_def aborts_def eval_simps)

text \<open>
  C8 (amended).  \<^verbatim>\<open>GetFieldElement\<close> of a field-element field with a consistent cache returns
  normally for every configuration whose bit size is between 0 and \<^verbatim>\<open>BitSize()\<close>, and
  returns Null exactly when one of the three conditions of validity fails;
  \<^verbatim>\<open>GetFieldElement\<close> of a bit vector field with a consistent cache returns normally for every
  configuration, and returns Null exactly when the raw data is longer than the (converted)
  limit or the library fails (or field elements have no bytes at all).  On an object not yet
  initialized, a wrong size, a wrong padding and a failed decompression print one
  \<^verbatim>\<open>LogPrint\<close> line each; a failed deserialization and a raw size above the limit print
  nothing.
\<close>

theorem C8_GetFieldElement_returns:
  fixes thisF :: "FieldElementCertificateFieldConfig CustomCertificateField"
    and thisB :: "BitVectorCertificateFieldConfig CustomCertificateField"
  shows
  "(FE_cache_consistent L thisF \<and> 0 \<le> getBitSize cfgF \<and> getBitSize cfgF \<le> int (BitSize L) \<longrightarrow>
      returns_normally (FieldElementCertificateField_GetFieldElement L cfgF thisF)
      \<and> returns_Null (FieldElementCertificateField_GetFieldElement L cfgF thisF)
          = (\<not> FE_conditions L cfgF (vRawData thisF)))
   \<and> (state thisF = NOT_INITIALIZED \<and> 0 \<le> getBitSize cfgF \<and> getBitSize cfgF \<le> int (BitSize L) \<longrightarrow>
      fst (FieldElementCertificateField_GetFieldElement L cfgF thisF)
        = (if \<not> raw_size_matches (getBitSize cfgF) (vRawData thisF)
           then [LogPrint ''sc'' ''ERROR: wrong size'']
           else if \<not> padding_is_zero (getBitSize cfgF) (vRawData thisF)
           then [LogPrint ''sc'' ''ERROR: wrong number of null bits in last byte'']
           else fst (CFieldElement_IsValid L (left_padded L (vRawData thisF)))))
   \<and> (BV_cache_consistent K L thisB \<longrightarrow>
      returns_normally (BitVectorCertificateField_GetFieldElement K L cfgB thisB)
      \<and> returns_Null (BitVectorCertificateField_GetFieldElement K L cfgB thisB)
          = (length (vRawData thisB) > to_size_t (getMaxCompressedSizeBytes cfgB)
             \<or> zendoo_merkle_root_from_compressed_bytes L (vRawData thisB) (SC_BV_SIZE_IN_BYTES K) = None
             \<or> ByteSize L = 0))
   \<and> (state thisB = NOT_INITIALIZED \<longrightarrow>
      fst (BitVectorCertificateField_GetFieldElement K L cfgB thisB)
        = (if length (vRawData thisB) > to_size_t (getMaxCompressedSizeBytes cfgB) then []
           else if zendoo_merkle_root_from_compressed_bytes L (vRawData thisB) (SC_BV_SIZE_IN_BYTES K)
                   = None
           then [Call_zendoo_merkle_root_from_compressed_bytes (vRawData thisB) (SC_BV_SIZE_IN_BYTES K),
                 LogPrint ''sc'' ''ERROR: could not get merkle root field el from compr bit vector'']
           else [Call_zendoo_merkle_root_from_compressed_bytes (vRawData thisB)
                   (SC_BV_SIZE_IN_BYTES K)]))"
proof (intro conjI impI)
  assume a: "FE_cache_consistent L thisF \<and> 0 \<le> getBitSize cfgF \<and> getBitSize cfgF \<le> int (BitSize L)"
  then have c: "snd (FieldElementCertificateField_GetFieldElement L cfgF thisF)
         = snd (FieldElementCertificateField_validate L cfgF thisF)"
    by (intro FE_GetFieldElement_consistent) simp
  have "returns_normally (FieldElementCertificateField_validate L cfgF thisF)"
    using a by (intro FE_validate_returns) simp_all
  with c show n: "returns_normally (FieldElementCertificateField_GetFieldElement L cfgF thisF)"
    by (simp add: returns_normally_def)
  have "returns_nonnull (FieldElementCertificateField_GetFieldElement L cfgF thisF)
        = FE_conditions L cfgF (vRawData thisF)"
    using c FE_validate_nonnull_iff [of L cfgF thisF]
    by (simp add: returns_nonnull_def FE_conditions_def)
  with n show "returns_Null (FieldElementCertificateField_GetFieldElement L cfgF thisF)
          = (\<not> FE_conditions L cfgF (vRawData thisF))"
    by (simp add: Null_or_nonnull)
next
  assume a: "state thisF = NOT_INITIALIZED \<and> 0 \<le> getBitSize cfgF
             \<and> getBitSize cfgF \<le> int (BitSize L)"
  then have f: "FieldElementCertificateField_GetFieldElement L cfgF thisF
           = FieldElementCertificateField_validate L cfgF thisF"
    by (intro FE_GetFieldElement_fresh) simp
  show "fst (FieldElementCertificateField_GetFieldElement L cfgF thisF)
        = (if \<not> raw_size_matches (getBitSize cfgF) (vRawData thisF)
           then [LogPrint ''sc'' ''ERROR: wrong size'']
           else if \<not> padding_is_zero (getBitSize cfgF) (vRawData thisF)
           then [LogPrint ''sc'' ''ERROR: wrong number of null bits in last byte'']
           else fst (CFieldElement_IsValid L (left_padded L (vRawData thisF))))"
  proof (cases "raw_size_matches (getBitSize cfgF) (vRawData thisF)")
    case False
    with a show ?thesis unfolding f by (simp add: FE_validate_wrong_size)
  next
    case size: True
    show ?thesis
    proof (cases "padding_is_zero (getBitSize cfgF) (vRawData thisF)")
      case False
      with a size show ?thesis unfolding f by (simp add: FE_validate_wrong_padding)
    next
      case True
      with a size show ?thesis unfolding f by (simp add: FE_validate_deserialize)
    qed
  qed
next
  assume a: "BV_cache_consistent K L thisB"
  note c = BV_GetFieldElement_consistent [OF a]
  show "returns_normally (BitVectorCertificateField_GetFieldElement K L cfgB thisB)"
    using BV_validate_returns [of K L cfgB thisB] c by (simp add: returns_normally_def)
  have len: "length (CFieldElement_of_field L p) = ByteSize L" for p
    by (simp add: CFieldElement_of_field_def)
  have nn: "(CFieldElement_of_field L p = []) = (ByteSize L = 0)" for p
    using len [of p] by (metis length_0_conv)
  show "returns_Null (BitVectorCertificateField_GetFieldElement K L cfgB thisB)
          = (length (vRawData thisB) > to_size_t (getMaxCompressedSizeBytes cfgB)
             \<or> zendoo_merkle_root_from_compressed_bytes L (vRawData thisB) (SC_BV_SIZE_IN_BYTES K) = None
             \<or> ByteSize L = 0)"
    by (simp add: returns_Null_def c BV_validate_cases IsNull_def CFieldElement_Null_def nn
        split: option.splits)
next
  assume a: "state thisB = NOT_INITIALIZED"
  show "fst (BitVectorCertificateField_GetFieldElement K L cfgB thisB)
        = (if length (vRawData thisB) > to_size_t (getMaxCompressedSizeBytes cfgB) then []
           else if zendoo_merkle_root_from_compressed_bytes L (vRawData thisB) (SC_BV_SIZE_IN_BYTES K)
                   = None
           then [Call_zendoo_merkle_root_from_compressed_bytes (vRawData thisB) (SC_BV_SIZE_IN_BYTES K),
                 LogPrint ''sc'' ''ERROR: could not get merkle root field el from compr bit vector'']
           else [Call_zendoo_merkle_root_from_compressed_bytes (vRawData thisB)
                   (SC_BV_SIZE_IN_BYTES K)])"
    using a by (simp add: BV_GetFieldElement_fresh BV_validate_cases split: option.splits)
qed

text \<open>
  The theorem at a field with a reserved bit set, and at a bit vector payload above its
  limit.
\<close>

theorem C8_GetFieldElement_returns_witness:
  "returns_normally (FieldElementCertificateField_GetFieldElement example_lib c10
      (new_CustomCertificateField [0x2B, 0xC1]))
   \<and> returns_Null (FieldElementCertificateField_GetFieldElement example_lib c10
      (new_CustomCertificateField [0x2B, 0xC1]))
   \<and> fst (FieldElementCertificateField_GetFieldElement example_lib c10
      (new_CustomCertificateField [0x2B, 0xC1]))
     = [LogPrint ''sc'' ''ERROR: wrong number of null bits in last byte'']
   \<and> returns_normally (BitVectorCertificateField_GetFieldElement agreeing_constants example_lib bv2
      (new_CustomCertificateField [0, 7, 7]))
   \<and> returns_Null (BitVectorCertificateField_GetFieldElement agreeing_constants example_lib bv2
      (new_CustomCertificateField [0, 7, 7]))
   \<and> fst (BitVectorCertificateField_GetFieldElement agreeing_constants example_lib bv2
      (new_CustomCertificateField [0, 7, 7])) = []"
proof -
  let ?f = "new_CustomCertificateField [0x2B, 0xC1]
                :: FieldElementCertificateFieldConfig CustomCertificateField"
  let ?b = "new_CustomCertificateField [0, 7, 7]
                :: BitVectorCertificateFieldConfig CustomCertificateField"
  have h1: "FE_cache_consistent example_lib ?f" by (rule FE_new_consistent)
  have h2: "BV_cache_consistent agreeing_constants example_lib ?b" by (rule BV_new_consistent)
  have s1: "state ?f = NOT_INITIALIZED" "state ?b = NOT_INITIALIZED"
    by (simp_all add: new_CustomCertificateField_def)
  have r: "vRawData ?f = [0x2B, 0xC1]" "vRawData ?b = [0, 7, 7]"
    by (simp_all add: new_CustomCertificateField_def)
  have b: "0 \<le> getBitSize c10" "getBitSize c10 \<le> int (BitSize example_lib)" "getBitSize c10 = 10"
    by (simp_all add: c10_def getBitSize_def BitSize_def example_lib_def)
  have 1: "raw_size_matches 10 [0x2B, 0xC1]" by (simp add: raw_size_matches_def)
  have 2: "\<not> padding_is_zero 10 [0x2B, 0xC1]"
    by (simp add: padding_is_zero_def upt_conv_Cons bit_numeral_rec)
  have 3: "length [0 :: byte, 7, 7] > to_size_t (getMaxCompressedSizeBytes bv2)"
    by (simp add: bv2_def getMaxCompressedSizeBytes_def to_size_t_def)
  from C8_GetFieldElement_returns [of example_lib ?f c10 agreeing_constants ?b bv2] h1 h2 s1 b 1 2 3
  show ?thesis unfolding r by (simp add: FE_conditions_def)
qed

section \<open>Lemmas on getblocktemplate\<close>

lemma wait_loop_exit:
  "snd (snd (wait_loop h n t obs)) =
     (case dropWhile (keeps_waiting h n) obs of
        [] \<Rightarrow> None
      | ob # rest \<Rightarrow> Some (exit_reason h n ob))"
  by (induction obs arbitrary: t)
     (simp_all add: split_def keeps_waiting_def exit_reason_def)

lemma wait_loop_deadline:
  "fst (snd (wait_loop h n t obs)) = t + 10 * int (timeouts (takeWhile (keeps_waiting h n) obs))"
  by (induction obs arbitrary: t)
     (simp_all add: split_def keeps_waiting_def timeouts_def)

lemma wait_loop_events:
  "list_all is_timed_wait (fst (wait_loop h n t obs))"
  by (induction obs arbitrary: t) (simp_all add: split_def is_timed_wait_def)

lemma proposal_ignores_peers:
  "proposal (with_peers_and_download a b env) oparam = proposal env oparam"
  by (simp add: proposal_def with_peers_and_download_def
      split: UniValue.splits option.splits sum.splits)

lemma check_coinbase_destination_iff:
  "(check_coinbase_destination env = None) = (\<not> no_coinbase_destination env)"
  by (simp add: check_coinbase_destination_def no_coinbase_destination_def)

lemma check_coinbase_destination_code:
  "check_coinbase_destination env = Some e \<Longrightarrow> \<exists>m. e = JSONRPCError RPC_METHOD_NOT_FOUND m"
  by (auto simp: check_coinbase_destination_def split: if_splits)

lemma check_coinbase_destination_peers:
  "check_coinbase_destination (with_peers_and_download a b env) = check_coinbase_destination env"
  by (simp add: check_coinbase_destination_def with_peers_and_download_def)

lemma longpoll_absent:
  "longpoll env st VNULL = ([], Inr (at_entry env))"
  by (simp add: longpoll_def isNull_def)






lemmas gbt_eval = getblocktemplate_def template_mode_def longpoll_def update_block_def
  build_response_def fill_aMutable_def before_CreateNewBlock_def template_is_stale_def
  check_coinbase_destination_def example_env_def example_view_def initial_static_def
  isNull_def isStr_def find_value_def watched_def Let_def

section \<open>Theorems on rpc/mining.cpp\<close>



text \<open>
  C6 (as stated, refuted).  A request object without \<open>longpollid\<close>: the call returns a
  template at once, with nothing observed of the node in between and no lock released; it
  does not wait for a change.  And for a \<open>longpollid\<close> that is not a string the watched
  counter is the one recorded at the last build (here 0), not the mempool's current
  counter (here 5).
\<close>

theorem C6_absent_longpollid_no_wait:
  "find_value (VOBJ []) ''longpollid'' = VNULL
   \<and> wait_observations (example_env 10 5 []) = []
   \<and> returns_a_template (outcome_of (getblocktemplate (example_env 10 5 []) [VOBJ []] False
        initial_static))
   \<and> fst (getblocktemplate (example_env 10 5 []) [VOBJ []] False initial_static)
      = [LOCK_cs_main, Call_CreateNewBlockWithKey]
   \<and> watched (example_env 10 5 []) initial_static (VNUM 1) = Inr (7010, 0)
   \<and> mempool_GetTransactionsUpdated (at_entry (example_env 10 5 [])) = 5"
  by (simp add: gbt_eval outcome_of_def returns_a_template_def)

text \<open>
  C6 (amended).  A \<open>longpollid\<close> string of at least 64 characters is read as the hash in its
  first 64 characters and the counter (as an \<^verbatim>\<open>unsigned int\<close>) in the rest; a shorter string
  makes \<^verbatim>\<open>substr\<close> throw.  A \<open>longpollid\<close> that is not a string gives the current best
  block's hash and the counter recorded at the last template build.  With a \<open>longpollid\<close>
  that is not null the call waits on that pair: it is still waiting exactly as long as the
  wait loop on that pair has not ended, so as long as every observation shows the watched
  tip, a running server and no timeout with another counter.  Without a \<open>longpollid\<close> the
  call does not wait.
\<close>

theorem C6_watch_token:
  "(length lpstr \<ge> 64 \<longrightarrow>
      watched env st (VSTR lpstr)
        = Inr (SetHex env (take 64 lpstr), nat (atoi64 env (drop 64 lpstr) mod 2 ^ 32)))
   \<and> (length lpstr < 64 \<longrightarrow> watched env st (VSTR lpstr) = Inl std_out_of_range)
   \<and> (\<not> isStr lpval \<longrightarrow>
      watched env st lpval
        = Inr (GetBlockHash env (chainActive_Tip (at_entry env)), nTransactionsUpdatedLast st))
   \<and> (\<not> isNull lpval \<and> watched env st lpval = Inr (h, n) \<longrightarrow>
      (snd (longpoll env st lpval) = Inl Still_waiting)
        = (snd (snd (wait_loop h n (get_system_time env + 60) (wait_observations env))) = None)
      \<and> (list_all (keeps_waiting h n) (wait_observations env) \<longrightarrow>
           snd (longpoll env st lpval) = Inl Still_waiting))
   \<and> longpoll env st VNULL = ([], Inr (at_entry env))"
proof (intro conjI impI)
  assume "64 \<le> length lpstr"
  then show "watched env st (VSTR lpstr)
        = Inr (SetHex env (take 64 lpstr), nat (atoi64 env (drop 64 lpstr) mod 2 ^ 32))"
    by (simp add: watched_def)
next
  assume "length lpstr < 64"
  then show "watched env st (VSTR lpstr) = Inl std_out_of_range"
    by (simp add: watched_def)
next
  assume "\<not> isStr lpval"
  then show "watched env st lpval
        = Inr (GetBlockHash env (chainActive_Tip (at_entry env)), nTransactionsUpdatedLast st)"
    by (cases lpval) (simp_all add: watched_def isStr_def)
next
  assume a: "\<not> isNull lpval \<and> watched env st lpval = Inr (h, n)"
  then show w: "(snd (longpoll env st lpval) = Inl Still_waiting)
        = (snd (snd (wait_loop h n (get_system_time env + 60) (wait_observations env))) = None)"
    by (cases "wait_loop h n (get_system_time env + 60) (wait_observations env)")
       (auto simp: longpoll_def split: option.splits)
  assume "list_all (keeps_waiting h n) (wait_observations env)"
  then have d: "dropWhile (keeps_waiting h n) (wait_observations env) = []"
    by (simp add: list_all_iff)
  have "snd (snd (wait_loop h n (get_system_time env + 60) (wait_observations env))) = None"
    unfolding wait_loop_exit d by simp
  with w show "snd (longpoll env st lpval) = Inl Still_waiting" by simp
next
  show "longpoll env st VNULL = ([], Inr (at_entry env))" by (rule longpoll_absent)
qed

text \<open>
  The theorem at the example node, for a well-formed string, a short string and a number.
\<close>

theorem C6_watch_token_witness:
  "watched (example_env 10 5 example_observations) initial_static
       (VSTR (replicate 64 (CHR ''a'') @ ''5'')) = Inr (7010, 5)
   \<and> watched (example_env 10 5 example_observations) initial_static (VSTR ''abc'')
       = Inl std_out_of_range
   \<and> watched (example_env 10 5 example_observations) initial_static (VNUM 1) = Inr (7010, 0)
   \<and> snd (longpoll (example_env 10 5 (take 2 example_observations)) initial_static (VNUM 1))
       = Inl Still_waiting
   \<and> longpoll (example_env 10 5 example_observations) initial_static VNULL
       = ([], Inr (example_view 10 5))"
proof -
  let ?e = "example_env 10 5 example_observations"
  let ?e2 = "example_env 10 5 (take 2 example_observations)"
  have l: "64 \<le> length (replicate 64 (CHR ''a'') @ ''5'')" "length ''abc'' < 64" by simp_all
  have t: "take 64 (replicate 64 (CHR ''a'') @ ''5'') = replicate 64 (CHR ''a'')"
    "drop 64 (replicate 64 (CHR ''a'') @ ''5'') = ''5''" by simp_all
  have n: "\<not> isStr (VNUM 1)" "\<not> isNull (VNUM 1)" by (simp_all add: isStr_def isNull_def)
  have w: "watched ?e2 initial_static (VNUM 1) = Inr (7010, 0)"
    by (simp add: watched_def example_env_def example_view_def initial_static_def)
  have k: "list_all (keeps_waiting 7010 0) (wait_observations ?e2)"
    by (simp add: example_env_def example_observations_def keeps_waiting_def)
  have v: "SetHex ?e (replicate 64 (CHR ''a'')) = 7010" "atoi64 ?e ''5'' = 5"
    "GetBlockHash ?e (chainActive_Tip (at_entry ?e)) = 7010"
    "nTransactionsUpdatedLast (initial_static :: nat gbt_static) = 0"
    "at_entry ?e = example_view 10 5"
    by (simp_all add: example_env_def example_view_def initial_static_def)
  from C6_watch_token [of "replicate 64 (CHR ''a'') @ ''5''" ?e initial_static "VNUM 1" 7010 0]
       C6_watch_token [of "''abc''" ?e initial_static "VNUM 1" 7010 0]
       C6_watch_token [of "''abc''" ?e2 initial_static "VNUM 1" 7010 0] l n w k
  show ?thesis unfolding t v by (simp add: example_env_def example_view_def)
qed

text \<open>
  C7.  The long poll with a watched pair \<open>(h, n)\<close>, the node's behaviour during the wait being
  given as the sequence of what the loop observes.  \<^verbatim>\<open>cs_main\<close> is left before the first
  \<^verbatim>\<open>timed_wait\<close> and entered again after the last one.  The loop ends at the first observation
  where the tip's hash is not \<open>h\<close>, or the RPC server does not run, or the wait timed out and
  the mempool counter is not \<open>n\<close>; before that it goes on, and while no such observation comes
  the call is still waiting.  The deadline starts 60 seconds after the wait began and is 10
  seconds later for every timeout passed.  When the loop has ended and the RPC server does
  not run, the error "Shutting down" is thrown, and template mode ends with it, the static
  variables untouched.
\<close>

theorem C7_longpoll_wait:
  assumes "\<not> isNull lpval" and "watched env st lpval = Inr (h, n)"
  shows
  "(case dropWhile (keeps_waiting h n) (wait_observations env) of
      [] \<Rightarrow>
        snd (longpoll env st lpval) = Inl Still_waiting
        \<and> fst (longpoll env st lpval)
            = LEAVE_CRITICAL_SECTION_cs_main # lock_csBestBlock
              # fst (wait_loop h n (get_system_time env + 60) (wait_observations env))
    | ob # rest \<Rightarrow>
        snd (snd (wait_loop h n (get_system_time env + 60) (wait_observations env)))
          = Some (exit_reason h n ob)
        \<and> (obs_Tip_GetBlockHash ob \<noteq> h \<or> \<not> obs_IsRPCRunning ob
             \<or> (\<not> obs_timed_wait ob \<and> obs_GetTransactionsUpdated ob \<noteq> n))
        \<and> fst (longpoll env st lpval)
            = LEAVE_CRITICAL_SECTION_cs_main # lock_csBestBlock
              # fst (wait_loop h n (get_system_time env + 60) (wait_observations env))
              @ [unlock_csBestBlock, ENTER_CRITICAL_SECTION_cs_main]
        \<and> snd (longpoll env st lpval)
            = (if IsRPCRunning (after_wait env) then Inr (after_wait env)
               else Inl (Throws (JSONRPCError RPC_CLIENT_NOT_CONNECTED ''Shutting down''))))
   \<and> list_all is_timed_wait
        (fst (wait_loop h n (get_system_time env + 60) (wait_observations env)))
   \<and> fst (snd (wait_loop h n (get_system_time env + 60) (wait_observations env)))
       = get_system_time env + 60
         + 10 * int (timeouts (takeWhile (keeps_waiting h n) (wait_observations env)))
   \<and> (\<not> vNodes_empty (at_entry env) \<and> \<not> IsInitialBlockDownload (at_entry env)
        \<and> snd (longpoll env st lpval)
            = Inl (Throws (JSONRPCError RPC_CLIENT_NOT_CONNECTED ''Shutting down'')) \<longrightarrow>
        template_mode env certSupported ''template'' lpval st
          = (fst (longpoll env st lpval),
             Throws (JSONRPCError RPC_CLIENT_NOT_CONNECTED ''Shutting down''), st))"
proof (intro conjI impI)
  let ?w = "wait_loop h n (get_system_time env + 60) (wait_observations env)"
  obtain ev t x where w: "?w = (ev, t, x)" by (cases ?w) auto
  have x: "x = (case dropWhile (keeps_waiting h n) (wait_observations env) of
        [] \<Rightarrow> None | ob # rest \<Rightarrow> Some (exit_reason h n ob))"
    using wait_loop_exit [of h n "get_system_time env + 60" "wait_observations env"] w by simp
  show "case dropWhile (keeps_waiting h n) (wait_observations env) of
      [] \<Rightarrow>
        snd (longpoll env st lpval) = Inl Still_waiting
        \<and> fst (longpoll env st lpval)
            = LEAVE_CRITICAL_SECTION_cs_main # lock_csBestBlock # fst ?w
    | ob # rest \<Rightarrow>
        snd (snd ?w) = Some (exit_reason h n ob)
        \<and> (obs_Tip_GetBlockHash ob \<noteq> h \<or> \<not> obs_IsRPCRunning ob
             \<or> (\<not> obs_timed_wait ob \<and> obs_GetTransactionsUpdated ob \<noteq> n))
        \<and> fst (longpoll env st lpval)
            = LEAVE_CRITICAL_SECTION_cs_main # lock_csBestBlock # fst ?w
              @ [unlock_csBestBlock, ENTER_CRITICAL_SECTION_cs_main]
        \<and> snd (longpoll env st lpval)
            = (if IsRPCRunning (after_wait env) then Inr (after_wait env)
               else Inl (Throws (JSONRPCError RPC_CLIENT_NOT_CONNECTED ''Shutting down'')))"
  proof (cases "dropWhile (keeps_waiting h n) (wait_observations env)")
    case Nil
    have xn: "x = None" using x unfolding Nil by simp
    show ?thesis unfolding Nil using xn w assms by (simp add: longpoll_def)
  next
    case (Cons ob rest)
    then have "\<not> keeps_waiting h n ob"
      using hd_dropWhile [of "keeps_waiting h n" "wait_observations env"] by simp
    then have nk: "obs_Tip_GetBlockHash ob \<noteq> h \<or> \<not> obs_IsRPCRunning ob
             \<or> (\<not> obs_timed_wait ob \<and> obs_GetTransactionsUpdated ob \<noteq> n)"
      by (auto simp: keeps_waiting_def)
    have xs: "x = Some (exit_reason h n ob)" using x unfolding Cons by simp
    show ?thesis unfolding Cons using xs nk w assms by (simp add: longpoll_def)
  qed
  show "list_all is_timed_wait (fst ?w)" by (rule wait_loop_events)
  show "fst (snd ?w) = get_system_time env + 60
         + 10 * int (timeouts (takeWhile (keeps_waiting h n) (wait_observations env)))"
    by (rule wait_loop_deadline)
next
  assume a: "\<not> vNodes_empty (at_entry env) \<and> \<not> IsInitialBlockDownload (at_entry env)
        \<and> snd (longpoll env st lpval)
            = Inl (Throws (JSONRPCError RPC_CLIENT_NOT_CONNECTED ''Shutting down''))"
  obtain ev r where l: "longpoll env st lpval = (ev, r)" by (cases "longpoll env st lpval") auto
  with a show "template_mode env certSupported ''template'' lpval st
          = (fst (longpoll env st lpval),
             Throws (JSONRPCError RPC_CLIENT_NOT_CONNECTED ''Shutting down''), st)"
    by (simp add: template_mode_def)
qed

text \<open>
  The theorem at the three example observations: two waits, the second with the deadline
  moved by 10 seconds, then the new tip ends the loop.
\<close>

theorem C7_longpoll_wait_witness:
  "fst (longpoll (example_env 10 5 example_observations) initial_static (VNUM 1))
     = [LEAVE_CRITICAL_SECTION_cs_main, lock_csBestBlock, timed_wait 1060, timed_wait 1070,
        unlock_csBestBlock, ENTER_CRITICAL_SECTION_cs_main]
   \<and> snd (longpoll (example_env 10 5 example_observations) initial_static (VNUM 1))
     = Inr (example_view 11 5)
   \<and> wait_loop 7010 0 1060 example_observations
     = ([timed_wait 1060, timed_wait 1070], 1070, Some Tip_changed)"
proof -
  let ?e = "example_env 10 5 example_observations"
  have n: "\<not> isNull (VNUM 1)" by (simp add: isNull_def)
  have w: "watched ?e initial_static (VNUM 1) = Inr (7010, 0)"
    by (simp add: watched_def example_env_def example_view_def initial_static_def)
  have d: "dropWhile (keeps_waiting 7010 0) (wait_observations ?e)
      = [\<lparr>obs_Tip_GetBlockHash = 7011, obs_IsRPCRunning = True, obs_timed_wait = True,
       obs_GetTransactionsUpdated = 0\<rparr>]"
    by (simp add: example_env_def example_observations_def keeps_waiting_def)
  have l: "wait_loop 7010 0 1060 example_observations
     = ([timed_wait 1060, timed_wait 1070], 1070, Some Tip_changed)"
    by (simp add: example_observations_def)
  have v: "get_system_time ?e + 60 = 1060" "wait_observations ?e = example_observations"
    "IsRPCRunning (after_wait ?e)" "after_wait ?e = example_view 11 5"
    by (simp_all add: example_env_def example_view_def)
  from C7_longpoll_wait [OF n w, of True] show ?thesis
    unfolding d unfolding v l by (simp add: exit_reason_def example_view_def)
qed

text \<open>
  C9 (the code at the failing input).  A first call at height 10, where the next block does
  not support sidechains, fills the static array \<^verbatim>\<open>aMutable\<close>.  A second call at height 25,
  where the next block does support them, gets the certificates key but the array of the
  first call: \<open>"certificates"\<close> is not in \<open>mutable\<close>.
\<close>

theorem C9_stale_mutable_array:
  "areSidechainsSupported (example_env 25 0 [])
     (chainActive_Height (at_entry (example_env 25 0 [])) + 1)
   \<and> (case outcome_of (getblocktemplate (example_env 25 0 []) [] False
         (static_after (getblocktemplate (example_env 10 0 []) [] False initial_static))) of
        Returns_template r \<Rightarrow> resp_certificates r \<and> ''certificates'' \<notin> set (resp_mutable r)
      | _ \<Rightarrow> False)"
  by (simp add: gbt_eval outcome_of_def static_after_def)

text \<open>
  C10.  A proposal request is answered with the error \<^verbatim>\<open>RPC_METHOD_NOT_FOUND\<close> when there is no
  miner address and no wallet.  When there is one, the call is the proposal branch alone,
  and its answer is the same whether or not a peer is connected and whether or not the node
  is in initial block download.  In template mode those two checks are made: without a peer
  the error is \<^verbatim>\<open>RPC_CLIENT_NOT_CONNECTED\<close>, and with a peer but in initial block download it
  is \<^verbatim>\<open>RPC_CLIENT_IN_INITIAL_DOWNLOAD\<close>.
\<close>

theorem C10_proposal_preconditions:
  "(is_proposal_request params \<and> no_coinbase_destination env \<longrightarrow>
      error_code (outcome_of (getblocktemplate env params False st)) = Some RPC_METHOD_NOT_FOUND)
   \<and> (is_proposal_request params \<and> \<not> no_coinbase_destination env \<longrightarrow>
      getblocktemplate env params False st = ([LOCK_cs_main], proposal env (hd params), st)
      \<and> getblocktemplate (with_peers_and_download no_peers downloading env) params False st
          = getblocktemplate env params False st)
   \<and> (\<not> no_coinbase_destination env \<and> vNodes_empty (at_entry env) \<longrightarrow>
      error_code (outcome_of (getblocktemplate env [] False st)) = Some RPC_CLIENT_NOT_CONNECTED)
   \<and> (\<not> no_coinbase_destination env \<and> \<not> vNodes_empty (at_entry env)
        \<and> IsInitialBlockDownload (at_entry env) \<longrightarrow>
      error_code (outcome_of (getblocktemplate env [] False st))
        = Some RPC_CLIENT_IN_INITIAL_DOWNLOAD)"
proof (intro conjI impI)
  assume a: "is_proposal_request params \<and> no_coinbase_destination env"
  then obtain e where e: "check_coinbase_destination env = Some e"
    using check_coinbase_destination_iff [of env] by auto
  from check_coinbase_destination_code [OF e] obtain m
    where "e = JSONRPCError RPC_METHOD_NOT_FOUND m" by blast
  moreover from a have "length params = 1"
    by (simp add: is_proposal_request_def)
  ultimately show "error_code (outcome_of (getblocktemplate env params False st))
      = Some RPC_METHOD_NOT_FOUND"
    using e by (simp add: getblocktemplate_def outcome_of_def error_code_def)
next
  assume a: "is_proposal_request params \<and> \<not> no_coinbase_destination env"
  then have c: "check_coinbase_destination env = None"
    by (simp add: check_coinbase_destination_iff)
  from a obtain members where p: "params = [VOBJ members]"
    and m: "map_of members ''mode'' = Some (VSTR ''proposal'')"
    by (cases params; cases "hd params")
       (auto simp: is_proposal_request_def)
  have g: "getblocktemplate env' params False st = ([LOCK_cs_main], proposal env' (hd params), st)"
    if "check_coinbase_destination env' = None" for env' :: "'a gbt_env"
    using that p m
    by (simp add: getblocktemplate_def find_value_def isStr_def isNull_def Let_def)
  from g [OF c] show "getblocktemplate env params False st
      = ([LOCK_cs_main], proposal env (hd params), st)" .
  have "check_coinbase_destination (with_peers_and_download no_peers downloading env) = None"
    using c by (simp add: check_coinbase_destination_peers)
  from g [OF this] g [OF c]
  show "getblocktemplate (with_peers_and_download no_peers downloading env) params False st
          = getblocktemplate env params False st"
    by (simp add: proposal_ignores_peers)
next
  assume a: "\<not> no_coinbase_destination env \<and> vNodes_empty (at_entry env)"
  then have c: "check_coinbase_destination env = None"
    by (simp add: check_coinbase_destination_iff)
  with a show "error_code (outcome_of (getblocktemplate env [] False st)) = Some RPC_CLIENT_NOT_CONNECTED"
    by (simp add: getblocktemplate_def template_mode_def outcome_of_def error_code_def)
next
  assume a: "\<not> no_coinbase_destination env \<and> \<not> vNodes_empty (at_entry env)
        \<and> IsInitialBlockDownload (at_entry env)"
  then have c: "check_coinbase_destination env = None"
    by (simp add: check_coinbase_destination_iff)
  with a show "error_code (outcome_of (getblocktemplate env [] False st))
        = Some RPC_CLIENT_IN_INITIAL_DOWNLOAD"
    by (simp add: getblocktemplate_def template_mode_def outcome_of_def error_code_def)
qed

text \<open>
  The theorem at the example node: a proposal without destination, a proposal on a node
  without peers and in initial download, and template mode on such nodes.
\<close>

theorem C10_proposal_preconditions_witness:
  "error_code (outcome_of (getblocktemplate
       ((example_env 10 5 [])\<lparr>mineraddress := [], pwalletMain := False\<rparr>)
       [VOBJ [(''mode'', VSTR ''proposal''), (''data'', VSTR ''00'')]] False initial_static))
     = Some RPC_METHOD_NOT_FOUND
   \<and> getblocktemplate (with_peers_and_download True True (example_env 10 5 []))
       [VOBJ [(''mode'', VSTR ''proposal''), (''data'', VSTR ''00'')]] False initial_static
     = ([LOCK_cs_main], Returns_proposal (VSTR ''inconclusive-not-best-prevblk''), initial_static)
   \<and> error_code (outcome_of (getblocktemplate
       (with_peers_and_download True True (example_env 10 5 [])) [] False initial_static))
     = Some RPC_CLIENT_NOT_CONNECTED
   \<and> error_code (outcome_of (getblocktemplate
       (with_peers_and_download False True (example_env 10 5 [])) [] False initial_static))
     = Some RPC_CLIENT_IN_INITIAL_DOWNLOAD"
proof -
  let ?params = "[VOBJ [(''mode'', VSTR ''proposal''), (''data'', VSTR ''00'')]]"
  let ?none = "(example_env 10 5 [])\<lparr>mineraddress := [], pwalletMain := False\<rparr>"
  let ?e = "example_env 10 5 [] :: nat gbt_env"
  have p: "is_proposal_request ?params" by (simp add: is_proposal_request_def)
  have c: "no_coinbase_destination ?none" "\<not> no_coinbase_destination ?e"
    "\<not> no_coinbase_destination (with_peers_and_download True True ?e)"
    "\<not> no_coinbase_destination (with_peers_and_download False True ?e)"
    by (simp_all add: no_coinbase_destination_def example_env_def with_peers_and_download_def)
  have v: "vNodes_empty (at_entry (with_peers_and_download True True ?e))"
    "\<not> vNodes_empty (at_entry (with_peers_and_download False True ?e))"
    "IsInitialBlockDownload (at_entry (with_peers_and_download False True ?e))"
    by (simp_all add: with_peers_and_download_def)
  have r: "proposal ?e (hd ?params) = Returns_proposal (VSTR ''inconclusive-not-best-prevblk'')"
    by (simp add: proposal_def find_value_def example_env_def example_view_def)
  from C10_proposal_preconditions [of ?params ?none initial_static True True]
       C10_proposal_preconditions [of ?params ?e initial_static True True]
       C10_proposal_preconditions [of ?params "with_peers_and_download True True ?e" initial_static True True]
       C10_proposal_preconditions [of ?params "with_peers_and_download False True ?e" initial_static True True]
       p c v
  show ?thesis unfolding r by simp
qed

end
